theory Spec2Isabelle
  imports Main "HOL-Library.Word"
begin

section \<open>JavaScript values and conversions used by the SDK\<close>

text \<open>
  The SDK is TypeScript. Exceptions are modelled as values: a function that can throw
  returns \<open>js_error + 'a\<close>, with \<open>Inl\<close> for the thrown error. Strings are lists of
  8-bit characters. A JavaScript \<open>number\<close> is a double; the model keeps the integral ones
  exactly and one constructor for each kind of non-integral value, which is all that
  \<open>BigInt(number)\<close> and the operator \<open>||\<close> can tell apart.
\<close>

datatype js_error = SyntaxError | RangeError | Error string

datatype js_number = Integral int | Fractional | NaN | PosInfinity | NegInfinity

definition isWhiteSpace :: "char \<Rightarrow> bool" where
  \<comment> \<open>WhiteSpace and LineTerminator of ECMAScript, as far as they are 8-bit characters.\<close>
  "isWhiteSpace c = ((of_char c :: nat) \<in> {9, 10, 11, 12, 13, 32, 160})"

definition trimStart :: "string \<Rightarrow> string" where
  "trimStart s = dropWhile isWhiteSpace s"

definition trim :: "string \<Rightarrow> string" where
  "trim s = rev (dropWhile isWhiteSpace (rev (dropWhile isWhiteSpace s)))"

definition startsWith :: "string \<Rightarrow> string \<Rightarrow> bool" where
  "startsWith s p = (take (length p) s = p)"

definition digit_val :: "char \<Rightarrow> nat" where
  \<comment> \<open>The value of a digit in radix up to 36; 36 for a character that is no digit.\<close>
  "digit_val c = (let n = (of_char c :: nat) in
     if 48 \<le> n \<and> n \<le> 57 then n - 48
     else if 97 \<le> n \<and> n \<le> 122 then n - 87
     else if 65 \<le> n \<and> n \<le> 90 then n - 55
     else 36)"

definition digits_value :: "nat \<Rightarrow> string \<Rightarrow> nat" where
  "digits_value b ds = foldl (\<lambda>a c. a * b + digit_val c) 0 ds"

definition parse_digits :: "nat \<Rightarrow> string \<Rightarrow> nat option" where
  \<comment> \<open>One or more digits of radix \<open>b\<close>, and nothing else.\<close>
  "parse_digits b ds =
     (if ds \<noteq> [] \<and> list_all (\<lambda>c. digit_val c < b) ds then Some (digits_value b ds) else None)"

definition StringToBigInt :: "string \<Rightarrow> int option" where
  \<comment> \<open>ECMAScript StringToBigInt: the grammar StringIntegerLiteral. \<open>None\<close> is the
      result \<open>undefined\<close>, for which \<open>BigInt(string)\<close> throws a SyntaxError.\<close>
  "StringToBigInt str =
     (let t = trim str in
      if t = [] then Some 0
      else if take 2 t = ''0x'' \<or> take 2 t = ''0X'' then map_option int (parse_digits 16 (drop 2 t))
      else if take 2 t = ''0o'' \<or> take 2 t = ''0O'' then map_option int (parse_digits 8 (drop 2 t))
      else if take 2 t = ''0b'' \<or> take 2 t = ''0B'' then map_option int (parse_digits 2 (drop 2 t))
      else if hd t = CHR ''+'' then map_option int (parse_digits 10 (tl t))
      else if hd t = CHR ''-'' then map_option (\<lambda>n. - int n) (parse_digits 10 (tl t))
      else map_option int (parse_digits 10 t))"

function bit_length :: "nat \<Rightarrow> nat" where
  "bit_length n = (if n = 0 then 0 else Suc (bit_length (n div 2)))"
  by pat_completeness auto
termination
  by (relation "measure id") auto

declare bit_length.simps [simp del]

definition to_double :: "nat \<Rightarrow> nat option" where
  \<comment> \<open>The double nearest to a natural number (ties to even); \<open>None\<close> is Infinity.\<close>
  "to_double n =
     (if n < 2 ^ 53 then Some n
      else let e = bit_length n - 53;
               q = n div 2 ^ e;
               r = n mod 2 ^ e;
               h = 2 ^ (e - 1);
               q' = (if r > h \<or> (r = h \<and> odd q) then q + 1 else q);
               v = q' * 2 ^ e
           in if v \<ge> 2 ^ 1024 then None else Some v)"

definition parseInt16 :: "string \<Rightarrow> js_number" where
  \<comment> \<open>\<open>parseInt(input, 16)\<close>.\<close>
  "parseInt16 input =
     (let s = trimStart input;
          neg = (s \<noteq> [] \<and> hd s = CHR ''-'');
          s1 = (if s \<noteq> [] \<and> (hd s = CHR ''+'' \<or> hd s = CHR ''-'') then tl s else s);
          s2 = (if startsWith s1 ''0x'' \<or> startsWith s1 ''0X'' then drop 2 s1 else s1);
          z = takeWhile (\<lambda>c. digit_val c < 16) s2
      in if z = [] then NaN
         else (case to_double (digits_value 16 z) of
                 None \<Rightarrow> (if neg then NegInfinity else PosInfinity)
               | Some v \<Rightarrow> Integral (if neg then - int v else int v)))"

definition or_zero :: "js_number \<Rightarrow> js_number" where
  \<comment> \<open>\<open>x || 0\<close>: NaN and 0 are falsy.\<close>
  "or_zero x = (case x of NaN \<Rightarrow> Integral 0 | _ \<Rightarrow> x)"

definition NumberToBigInt :: "js_number \<Rightarrow> js_error + int" where
  \<comment> \<open>\<open>BigInt(number)\<close> throws a RangeError unless the number is an integer.\<close>
  "NumberToBigInt x = (case x of Integral i \<Rightarrow> Inr i | _ \<Rightarrow> Inl RangeError)"

definition digit_char :: "nat \<Rightarrow> char" where
  "digit_char d = ''0123456789abcdef'' ! d"

function toStringRadix :: "nat \<Rightarrow> nat \<Rightarrow> string" where
  \<comment> \<open>\<open>n.toString(b)\<close> for a non-negative integer and a radix from 2 to 16.\<close>
  "toStringRadix b n =
     (if n < b \<or> b < 2 then [digit_char n] else toStringRadix b (n div b) @ [digit_char (n mod b)])"
  by pat_completeness auto
termination
  by (relation "measure snd") auto

declare toStringRadix.simps [simp del]

definition padStart :: "nat \<Rightarrow> char \<Rightarrow> string \<Rightarrow> string" where
  "padStart n c s = replicate (n - length s) c @ s"

definition toLowerChar :: "char \<Rightarrow> char" where
  "toLowerChar c = (let n = (of_char c :: nat) in
     if (65 \<le> n \<and> n \<le> 90) \<or> (192 \<le> n \<and> n \<le> 222 \<and> n \<noteq> 215) then char_of (n + 32) else c)"

definition toLowerCase :: "string \<Rightarrow> string" where
  "toLowerCase s = map toLowerChar s"

fun map_throw :: "('a \<Rightarrow> js_error + 'b) \<Rightarrow> 'a list \<Rightarrow> js_error + 'b list" where
  \<comment> \<open>\<open>Array.prototype.map\<close> with a callback that can throw: the first exception ends it.\<close>
  "map_throw f [] = Inr []"
| "map_throw f (x # xs) =
     (case f x of
        Inl e \<Rightarrow> Inl e
      | Inr y \<Rightarrow> (case map_throw f xs of Inl e \<Rightarrow> Inl e | Inr ys \<Rightarrow> Inr (y # ys)))"



text \<open>
  A JavaScript \<open>Map\<close> is a finite table with its number of entries. The engine of Node.js
  (V8) bounds that number: a \<open>set\<close> that would add an entry to a table of \<open>2^24\<close> entries
  throws the RangeError "Map maximum size exceeded". The tables of the SDK hold strings,
  so \<open>has(k)\<close> is that \<open>get(k)\<close> is defined.
\<close>

record ('k, 'v) js_map =
  entries :: "'k \<rightharpoonup> 'v"
  map_size :: nat

definition MAP_MAX_SIZE :: nat where
  "MAP_MAX_SIZE = 16777216"

definition new_Map :: "('k, 'v) js_map" where
  "new_Map = \<lparr>entries = Map.empty, map_size = 0\<rparr>"

definition Map_get :: "('k, 'v) js_map \<Rightarrow> 'k \<Rightarrow> 'v option" where
  "Map_get m k = entries m k"

definition Map_set :: "'k \<Rightarrow> 'v \<Rightarrow> ('k, 'v) js_map \<Rightarrow> js_error + ('k, 'v) js_map" where
  "Map_set k v m =
     (if entries m k \<noteq> None then Inr (m\<lparr>entries := (entries m)(k \<mapsto> v)\<rparr>)
      else if MAP_MAX_SIZE \<le> map_size m then Inl RangeError
      else Inr \<lparr>entries = (entries m)(k \<mapsto> v), map_size = map_size m + 1\<rparr>)"

definition Map_clear :: "('k, 'v) js_map \<Rightarrow> ('k, 'v) js_map" where
  "Map_clear m = new_Map"


section \<open>CryptoUtils (sdk/src/crypto.ts)\<close>

text \<open>
  The Poseidon permutation comes from the library circomlibjs, which is no part of the
  repository. The function that \<open>circomlib.buildPoseidon()\<close> returns takes the list of
  inputs and returns a \<open>Uint8Array\<close>, the 32 bytes in which the library keeps the field
  element; it throws for no input and for more than 16 inputs. The map from the inputs to
  the bytes is the parameter \<open>H\<close>. \<open>toString\<close> of a \<open>Uint8Array\<close> takes no radix: it joins
  the decimal numerals of the bytes with commas, and this is what \<open>poseidonHash\<close> pads
  and prefixes.
\<close>

type_synonym Uint8Array = "8 word list"

type_synonym poseidon = "int list \<Rightarrow> Uint8Array"

datatype hash_input = Num js_number | BNum int | Str string

definition FIELD_MODULUS :: nat where
  "FIELD_MODULUS = 21888242871839275222246405745257275088548364400416034343698204186575808495617"

definition toBigInt :: "hash_input \<Rightarrow> js_error + int" where
  \<comment> \<open>The callback of \<open>inputs.map\<close> in \<open>poseidonHash\<close>.\<close>
  "toBigInt input =
     (case input of
        Str s \<Rightarrow>
          (if startsWith s ''0x'' then
             (case StringToBigInt s of
                Some v \<Rightarrow> Inr v
              | None \<Rightarrow> NumberToBigInt (or_zero (parseInt16 s)))
           else
             (case StringToBigInt (''0x'' @ s) of
                Some v \<Rightarrow> Inr v
              | None \<Rightarrow> (case StringToBigInt s of Some v \<Rightarrow> Inr v | None \<Rightarrow> Inl SyntaxError)))
      | BNum b \<Rightarrow> Inr b
      | Num n \<Rightarrow> NumberToBigInt n)"

fun join_strings :: "string \<Rightarrow> string list \<Rightarrow> string" where
  \<comment> \<open>\<open>Array.prototype.join\<close> on the strings of the elements.\<close>
  "join_strings sep [] = []"
| "join_strings sep [s] = s"
| "join_strings sep (s # t # rest) = s @ sep @ join_strings sep (t # rest)"

definition Uint8Array_toString :: "Uint8Array \<Rightarrow> string" where
  \<comment> \<open>\<open>hash.toString(16)\<close>: the argument is ignored.\<close>
  "Uint8Array_toString a = join_strings '','' (map (\<lambda>b. toStringRadix 10 (unat b)) a)"

definition hash_string :: "Uint8Array \<Rightarrow> string" where
  \<comment> \<open>\<open>'0x' + hash.toString(16).padStart(64, '0')\<close>\<close>
  "hash_string hash = ''0x'' @ padStart 64 CHR ''0'' (Uint8Array_toString hash)"

definition poseidonInstance :: "poseidon \<Rightarrow> int list \<Rightarrow> js_error + Uint8Array" where
  \<comment> \<open>The function of the library, with its check of the number of inputs.\<close>
  "poseidonInstance H xs =
     (if length xs < 1 \<or> 16 < length xs then Inl (Error ''Invalid poseidon size'')
      else Inr (H xs))"

definition bigIntInputs :: "hash_input list \<Rightarrow> js_error + int list" where
  \<comment> \<open>\<open>const bigIntInputs = inputs.map(...)\<close>: the tuple that is hashed.\<close>
  "bigIntInputs inputs = map_throw toBigInt inputs"

definition poseidonHash :: "poseidon \<Rightarrow> hash_input list \<Rightarrow> js_error + string" where
  "poseidonHash H inputs =
     (case bigIntInputs inputs of
        Inl e \<Rightarrow> Inl e
      | Inr xs \<Rightarrow>
          (case poseidonInstance H xs of
             Inl e \<Rightarrow> Inl e
           | Inr hash \<Rightarrow> Inr (hash_string hash)))"

definition computeNullifier :: "poseidon \<Rightarrow> string \<Rightarrow> string \<Rightarrow> js_error + string" where
  "computeNullifier H secret commitment = poseidonHash H [Str secret, Str commitment]"

definition computeCommitment :: "poseidon \<Rightarrow> js_number \<Rightarrow> string \<Rightarrow> js_number \<Rightarrow> js_error + string" where
  "computeCommitment H amount secret index = poseidonHash H [Num amount, Str secret, Num index]"

definition sample_poseidon :: poseidon where
  \<comment> \<open>A stand-in for the permutation with its 32 bytes of output, used where a statement
      is evaluated at a concrete input.\<close>
  "sample_poseidon xs = take 32 (map word_of_int xs @ replicate 32 0)"

definition hex_string :: "string \<Rightarrow> bool" where
  \<comment> \<open>One or more hexadecimal digits, as \<open>generateSecret\<close> returns them.\<close>
  "hex_string s = (s \<noteq> [] \<and> list_all (\<lambda>c. digit_val c < 16) s)"



section \<open>MerkleTree (sdk/src/merkle.ts)\<close>

text \<open>
  The tree is an object with mutable fields; every method takes the tree and returns
  the tree it leaves behind, together with its result or the exception it throws. The
  cache \<open>nodes\<close> is keyed in the source by the string \<open>level-index\<close>, which determines
  the pair of numbers; the model uses the pair. Leaf indices are natural numbers.
\<close>

record MerkleTree =
  levels :: nat
  leaves :: "(nat, string) js_map"
  nodes :: "(nat \<times> nat, string) js_map"
  zeroValue :: string

record MerklePath =
  pathElements :: "string list"
  pathIndices :: "int list"

definition new_MerkleTree :: "nat \<Rightarrow> MerkleTree" where
  "new_MerkleTree n = \<lparr>levels = n, leaves = new_Map, nodes = new_Map, zeroValue = ''0x0''\<rparr>"

definition initializeZeroValue :: "poseidon \<Rightarrow> MerkleTree \<Rightarrow> (js_error + unit) \<times> MerkleTree" where
  "initializeZeroValue H T =
     (if zeroValue T = ''0x0'' then
        (case poseidonHash H [Num (Integral 0), Num (Integral 0)] of
           Inl e \<Rightarrow> (Inl e, T)
         | Inr z \<Rightarrow> (Inr (), T\<lparr>zeroValue := z\<rparr>))
      else (Inr (), T))"

definition hex_prefixed :: "string \<Rightarrow> string" where
  \<comment> \<open>\<open>s.startsWith('0x') ? s : '0x' + s\<close>\<close>
  "hex_prefixed s = (if startsWith s ''0x'' then s else ''0x'' @ s)"

definition hashNodes :: "poseidon \<Rightarrow> string \<Rightarrow> string \<Rightarrow> js_error + string" where
  "hashNodes H left right =
     (let leftHex = hex_prefixed left;
          rightHex = hex_prefixed right
      in poseidonHash H [Str leftHex, Str rightHex])"

definition insert_tree :: "poseidon \<Rightarrow> nat \<Rightarrow> string \<Rightarrow> MerkleTree \<Rightarrow> (js_error + unit) \<times> MerkleTree" where
  \<comment> \<open>\<open>MerkleTree.insert\<close>\<close>
  "insert_tree H index commitment T =
     (case initializeZeroValue H T of
        (Inl e, T1) \<Rightarrow> (Inl e, T1)
      | (Inr _, T1) \<Rightarrow>
          (case Map_set index commitment (leaves T1) of
             Inl e \<Rightarrow> (Inl e, T1)
           | Inr lv \<Rightarrow> (Inr (), T1\<lparr>leaves := lv, nodes := Map_clear (nodes T1)\<rparr>)))"

fun getNode :: "poseidon \<Rightarrow> nat \<Rightarrow> nat \<Rightarrow> MerkleTree \<Rightarrow> (js_error + string) \<times> MerkleTree" where
  "getNode H 0 index T =
     (case initializeZeroValue H T of
        (Inl e, T1) \<Rightarrow> (Inl e, T1)
      | (Inr _, T1) \<Rightarrow>
          (case Map_get (nodes T1) (0, index) of
             Some v \<Rightarrow> (Inr v, T1)
           | None \<Rightarrow>
               (let leaf = (case Map_get (leaves T1) index of
                              None \<Rightarrow> zeroValue T1
                            | Some l \<Rightarrow> if l = [] then zeroValue T1 else l)
                in case Map_set (0, index) leaf (nodes T1) of
                     Inl e \<Rightarrow> (Inl e, T1)
                   | Inr cache \<Rightarrow> (Inr leaf, T1\<lparr>nodes := cache\<rparr>))))"
| "getNode H (Suc level) index T =
     (case initializeZeroValue H T of
        (Inl e, T1) \<Rightarrow> (Inl e, T1)
      | (Inr _, T1) \<Rightarrow>
          (case Map_get (nodes T1) (Suc level, index) of
             Some v \<Rightarrow> (Inr v, T1)
           | None \<Rightarrow>
               (case getNode H level (index * 2) T1 of
                  (Inl e, T2) \<Rightarrow> (Inl e, T2)
                | (Inr left, T2) \<Rightarrow>
                    (case getNode H level (index * 2 + 1) T2 of
                       (Inl e, T3) \<Rightarrow> (Inl e, T3)
                     | (Inr right, T3) \<Rightarrow>
                         (case hashNodes H left right of
                            Inl e \<Rightarrow> (Inl e, T3)
                          | Inr hash \<Rightarrow>
                              (case Map_set (Suc level, index) hash (nodes T3) of
                                 Inl e \<Rightarrow> (Inl e, T3)
                               | Inr cache \<Rightarrow> (Inr hash, T3\<lparr>nodes := cache\<rparr>)))))))"

definition getRoot :: "poseidon \<Rightarrow> MerkleTree \<Rightarrow> (js_error + string) \<times> MerkleTree" where
  "getRoot H T =
     (case initializeZeroValue H T of
        (Inl e, T1) \<Rightarrow> (Inl e, T1)
      | (Inr _, T1) \<Rightarrow> getNode H (levels T1) 0 T1)"

fun generatePath_loop ::
  "poseidon \<Rightarrow> nat \<Rightarrow> nat \<Rightarrow> nat \<Rightarrow> string list \<Rightarrow> int list \<Rightarrow> MerkleTree
     \<Rightarrow> (js_error + MerklePath) \<times> MerkleTree" where
  \<comment> \<open>The \<open>for\<close> loop of \<open>generatePath\<close>; the second argument counts the iterations
      left, \<open>levels - level\<close>.\<close>
  "generatePath_loop H 0 level currentIndex elems dirs T =
     (Inr \<lparr>pathElements = elems, pathIndices = dirs\<rparr>, T)"
| "generatePath_loop H (Suc n) level currentIndex elems dirs T =
     (let siblingIndex = (if currentIndex mod 2 = 0 then currentIndex + 1 else currentIndex - 1)
      in case getNode H level siblingIndex T of
           (Inl e, T1) \<Rightarrow> (Inl e, T1)
         | (Inr sibling, T1) \<Rightarrow>
             generatePath_loop H n (Suc level) (currentIndex div 2)
               (elems @ [sibling]) (dirs @ [int (currentIndex mod 2)]) T1)"

definition generatePath :: "poseidon \<Rightarrow> nat \<Rightarrow> MerkleTree \<Rightarrow> (js_error + MerklePath) \<times> MerkleTree" where
  "generatePath H index T =
     (case initializeZeroValue H T of
        (Inl e, T1) \<Rightarrow> (Inl e, T1)
      | (Inr _, T1) \<Rightarrow> generatePath_loop H (levels T1) 0 index [] [] T1)"

fun verifyPath_loop :: "poseidon \<Rightarrow> string list \<Rightarrow> int list \<Rightarrow> nat \<Rightarrow> string \<Rightarrow> js_error + string" where
  \<comment> \<open>The \<open>for\<close> loop of \<open>verifyPath\<close> from position \<open>i\<close> on; the list is the rest of
      \<open>pathElements\<close>. An index beyond \<open>pathIndices\<close> reads \<open>undefined\<close>, which is not 1.\<close>
  "verifyPath_loop H [] dirs i currentHash = Inr currentHash"
| "verifyPath_loop H (sibling # rest) dirs i currentHash =
     (let isRight = (i < length dirs \<and> dirs ! i = 1)
      in case (if isRight then hashNodes H sibling currentHash
               else hashNodes H currentHash sibling) of
           Inl e \<Rightarrow> Inl e
         | Inr h \<Rightarrow> verifyPath_loop H rest dirs (Suc i) h)"

definition verifyPath ::
  "poseidon \<Rightarrow> string \<Rightarrow> string list \<Rightarrow> int list \<Rightarrow> string \<Rightarrow> MerkleTree
     \<Rightarrow> (js_error + bool) \<times> MerkleTree" where
  "verifyPath H leaf elems dirs root T =
     (case initializeZeroValue H T of
        (Inl e, T1) \<Rightarrow> (Inl e, T1)
      | (Inr _, T1) \<Rightarrow>
          (case verifyPath_loop H elems dirs 0 leaf of
             Inl e \<Rightarrow> (Inl e, T1)
           | Inr currentHash \<Rightarrow> (Inr (toLowerCase currentHash = toLowerCase root), T1)))"





section \<open>ProofSightSDK (sdk/src/sdk.ts)\<close>

text \<open>
  The SDK object holds the tree and the flag \<open>initialized\<close> (its connection and wallet
  are never read). The two sources of nondeterminism are arguments of the model: the
  string that \<open>CryptoUtils.generateSecret()\<close> returns and the number that \<open>Date.now()\<close>
  returns. Fields of different interfaces that share a name carry a prefix.
\<close>

record ProofSightSDK =
  network :: string
  merkleTree :: MerkleTree
  initialized :: bool

record DepositResult =
  dep_amount :: js_number
  dep_commitment :: string
  dep_signature :: string

record CreateMarketOptions =
  opt_question :: string
  opt_outcomes :: "string list"
  opt_resolutionDate :: int
  opt_initialLiquidity :: js_number

record Market =
  market_id :: string
  question :: string
  outcomes :: "string list"
  currentOdds :: "(string \<times> js_number) list"
  totalLiquidity :: js_number
  volume24h :: js_number
  resolutionDate :: int
  status :: string

record CreatePositionOptions =
  opt_marketId :: string
  opt_outcome :: string
  opt_amount :: js_number

record Position =
  pos_id :: string
  pos_marketId :: string
  pos_outcome :: string
  pos_commitment :: string
  pos_amount :: js_number



definition new_ProofSightSDK :: "string \<Rightarrow> ProofSightSDK" where
  "new_ProofSightSDK net = \<lparr>network = net, merkleTree = new_MerkleTree 32, initialized = False\<rparr>"

definition initialize :: "ProofSightSDK \<Rightarrow> ProofSightSDK" where
  "initialize sdk = (if initialized sdk then sdk else sdk\<lparr>initialized := True\<rparr>)"

definition checkInit :: "ProofSightSDK \<Rightarrow> js_error + unit" where
  "checkInit sdk =
     (if \<not> initialized sdk then Inl (Error ''ProofSight SDK not initialized'') else Inr ())"

definition deposit ::
  "poseidon \<Rightarrow> string \<Rightarrow> nat \<Rightarrow> js_number \<Rightarrow> ProofSightSDK
     \<Rightarrow> (js_error + DepositResult) \<times> ProofSightSDK" where
  "deposit H secret now amount sdk =
     (case checkInit sdk of
        Inl e \<Rightarrow> (Inl e, sdk)
      | Inr _ \<Rightarrow>
     (let nextIndex = 0
      in case computeCommitment H amount secret (Integral (int nextIndex)) of
        Inl e \<Rightarrow> (Inl e, sdk)
      | Inr commitment \<Rightarrow>
     (case computeNullifier H secret commitment of
        Inl e \<Rightarrow> (Inl e, sdk)
      | Inr nullifier \<Rightarrow>
     (case generatePath H nextIndex (merkleTree sdk) of
        (Inl e, T1) \<Rightarrow> (Inl e, sdk\<lparr>merkleTree := T1\<rparr>)
      | (Inr path, T1) \<Rightarrow>
     (let signature = ''mock_tx_signature_'' @ toStringRadix 10 now
      in case insert_tree H nextIndex commitment T1 of
        (Inl e, T2) \<Rightarrow> (Inl e, sdk\<lparr>merkleTree := T2\<rparr>)
      | (Inr _, T2) \<Rightarrow>
          (Inr \<lparr>dep_amount = amount, dep_commitment = commitment, dep_signature = signature\<rparr>,
           sdk\<lparr>merkleTree := T2\<rparr>))))))"

definition createMarket :: "nat \<Rightarrow> CreateMarketOptions \<Rightarrow> ProofSightSDK \<Rightarrow> js_error + Market" where
  "createMarket now options sdk =
     (case checkInit sdk of
        Inl e \<Rightarrow> Inl e
      | Inr _ \<Rightarrow>
          Inr \<lparr>market_id = ''market_'' @ toStringRadix 10 now,
               question = opt_question options,
               outcomes = opt_outcomes options,
               currentOdds = [(''Yes'', Fractional), (''No'', Fractional)],
               totalLiquidity = opt_initialLiquidity options,
               volume24h = Integral 0,
               resolutionDate = opt_resolutionDate options,
               status = ''active''\<rparr>)"

definition createPosition ::
  "poseidon \<Rightarrow> string \<Rightarrow> nat \<Rightarrow> CreatePositionOptions \<Rightarrow> ProofSightSDK \<Rightarrow> js_error + Position" where
  "createPosition H secret now options sdk =
     (case checkInit sdk of
        Inl e \<Rightarrow> Inl e
      | Inr _ \<Rightarrow>
          (case poseidonHash H [Num (opt_amount options), Str secret, Str (opt_marketId options)] of
             Inl e \<Rightarrow> Inl e
           | Inr commitment \<Rightarrow>
               Inr \<lparr>pos_id = ''pos_'' @ toStringRadix 10 now,
                    pos_marketId = opt_marketId options,
                    pos_outcome = opt_outcome options,
                    pos_commitment = commitment,
                    pos_amount = opt_amount options\<rparr>))"



section \<open>ProofGenerator (sdk/src/circuits/proof-generator.ts)\<close>

text \<open>
  \<open>snarkjs.groth16.fullProve\<close> is an external prover: a parameter of the model, which
  returns a proof with its public signals or fails with a message. The list of the calls
  made to it is threaded through \<open>generateProof\<close>, so that a statement can say what was
  handed to the prover.
\<close>

datatype input_value = SVal string | NVal js_number | SArr "string list" | NArr "js_number list"

type_synonym ProofInputs = "(string \<times> input_value) list"

record Groth16Proof =
  pi_a :: "string list"
  pi_b :: "string list list"
  pi_c :: "string list"

record FullProveResult =
  fp_proof :: Groth16Proof
  fp_publicSignals :: "nat list"

record ProofResult =
  pr_proof :: Groth16Proof
  pr_publicSignals :: "string list"

type_synonym prover_call = "ProofInputs \<times> string \<times> string"

type_synonym fullProve = "ProofInputs \<Rightarrow> string \<Rightarrow> string \<Rightarrow> string + FullProveResult"

definition generateProof ::
  "fullProve \<Rightarrow> string \<Rightarrow> string \<Rightarrow> ProofInputs \<Rightarrow> prover_call list
     \<Rightarrow> (js_error + ProofResult) \<times> prover_call list" where
  "generateProof prover wasmPath zkeyPath inputs calls =
     (case prover inputs wasmPath zkeyPath of
        Inl error \<Rightarrow>
          (Inl (Error (''Proof generation failed: '' @ error)), calls @ [(inputs, wasmPath, zkeyPath)])
      | Inr r \<Rightarrow>
          (Inr \<lparr>pr_proof = \<lparr>pi_a = pi_a (fp_proof r), pi_b = pi_b (fp_proof r), pi_c = pi_c (fp_proof r)\<rparr>,
                pr_publicSignals = map (toStringRadix 10) (fp_publicSignals r)\<rparr>,
           calls @ [(inputs, wasmPath, zkeyPath)]))"

definition number_int :: "js_number \<Rightarrow> int option" where
  "number_int n = (case n of Integral i \<Rightarrow> Some i | _ \<Rightarrow> None)"

definition scalar_values :: "input_value \<Rightarrow> int option list" where
  \<comment> \<open>The integers that the entries of a witness denote; \<open>None\<close> for a malformed one.\<close>
  "scalar_values v =
     (case v of
        SVal s \<Rightarrow> [StringToBigInt s]
      | NVal n \<Rightarrow> [number_int n]
      | SArr ss \<Rightarrow> map StringToBigInt ss
      | NArr ns \<Rightarrow> map number_int ns)"

definition in_proving_field :: "ProofInputs \<Rightarrow> bool" where
  \<comment> \<open>The check that the specification asks of Prove, in its words: every witness value
      is well formed and lies within the proving field.\<close>
  "in_proving_field inputs =
     list_all (\<lambda>x. case x of None \<Rightarrow> False | Some v \<Rightarrow> 0 \<le> v \<and> v < int FIELD_MODULUS)
       (concat (map (scalar_values \<circ> snd) inputs))"

definition unchecked_witness :: ProofInputs where
  \<comment> \<open>A witness with a negative amount and a secret that is no number.\<close>
  "unchecked_witness = [(''deposit_amount'', SVal ''-1''), (''secret'', SVal ''not a number'')]"

definition sample_prover :: fullProve where
  \<comment> \<open>A prover that accepts whatever it is given, used where a statement is evaluated at
      a concrete input.\<close>
  "sample_prover inputs wasmPath zkeyPath =
     Inr \<lparr>fp_proof = \<lparr>pi_a = [], pi_b = [], pi_c = []\<rparr>, fp_publicSignals = []\<rparr>"


section \<open>The position update circuit (circuits/position\_update.circom)\<close>

text \<open>
  A signal is an element of the prime field, a natural number below \<open>FIELD_MODULUS\<close>;
  the witness calculator reduces every input modulo the prime. The circuit determines
  every signal from its inputs, so it is modelled as the function that returns the
  output signal when all constraints hold and \<open>None\<close> when one fails. The templates
  \<open>Num2Bits\<close>, \<open>LessThan\<close>, \<open>GreaterEqThan\<close> and \<open>IsZero\<close> are those of circomlib. The
  component \<open>authHasher\<close> constrains nothing and is left out.
\<close>

definition fadd :: "nat \<Rightarrow> nat \<Rightarrow> nat" where
  "fadd a b = (a + b) mod FIELD_MODULUS"

definition fsub :: "nat \<Rightarrow> nat \<Rightarrow> nat" where
  "fsub a b = (a + (FIELD_MODULUS - b mod FIELD_MODULUS)) mod FIELD_MODULUS"

definition fmul :: "nat \<Rightarrow> nat \<Rightarrow> nat" where
  "fmul a b = (a * b) mod FIELD_MODULUS"

definition Num2Bits :: "nat \<Rightarrow> nat \<Rightarrow> bool" where
  \<comment> \<open>\<open>Num2Bits(n)\<close> for \<open>n\<close> up to 253: the input has a representation in \<open>n\<close> bits.\<close>
  "Num2Bits n x = (x < 2 ^ n)"

definition LessThan :: "nat \<Rightarrow> nat \<Rightarrow> nat \<Rightarrow> nat option" where
  \<comment> \<open>\<open>n2b = Num2Bits(n+1); n2b.in <== in[0] + (1<<n) - in[1]; out <== 1 - n2b.out[n]\<close>\<close>
  "LessThan n in0 in1 =
     (let v = fsub (fadd in0 (2 ^ n)) in1
      in if Num2Bits (n + 1) v then Some (1 - (v div 2 ^ n) mod 2) else None)"

definition GreaterEqThan :: "nat \<Rightarrow> nat \<Rightarrow> nat \<Rightarrow> nat option" where
  \<comment> \<open>\<open>lt = LessThan(n); lt.in[0] <== in[1]; lt.in[1] <== in[0] + 1\<close>\<close>
  "GreaterEqThan n in0 in1 = LessThan n in1 (fadd in0 1)"

definition IsZero :: "nat \<Rightarrow> nat" where
  "IsZero x = (if x = 0 then 1 else 0)"

record PositionUpdateInputs =
  in_market_id :: nat
  pool_token_a :: nat
  pool_token_b :: nat
  new_pool_token_a :: nat
  new_pool_token_b :: nat
  amount_in :: nat
  is_buy_a :: nat
  min_amount_out :: nat
  user_secret :: nat
  position_commitment :: nat

definition k_old :: "PositionUpdateInputs \<Rightarrow> nat" where
  "k_old inp = fmul (pool_token_a inp mod FIELD_MODULUS) (pool_token_b inp mod FIELD_MODULUS)"

definition k_new :: "PositionUpdateInputs \<Rightarrow> nat" where
  "k_new inp = fmul (new_pool_token_a inp mod FIELD_MODULUS) (new_pool_token_b inp mod FIELD_MODULUS)"

definition kCheck :: "PositionUpdateInputs \<Rightarrow> nat option" where
  \<comment> \<open>The output of the component \<open>kCheck = GreaterEqThan(128)\<close>.\<close>
  "kCheck inp = GreaterEqThan 128 (k_new inp) (k_old inp)"

definition buy_a_constraint :: "PositionUpdateInputs \<Rightarrow> nat" where
  \<comment> \<open>The residual of the path for buying A: zero when \<open>new_pool_b = pool_b + amount_in\<close>
      and \<open>new_pool_a * (pool_b + amount_in) = k_old\<close>.\<close>
  "buy_a_constraint inp =
     (let pool_b = pool_token_b inp mod FIELD_MODULUS;
          new_a = new_pool_token_a inp mod FIELD_MODULUS;
          new_b = new_pool_token_b inp mod FIELD_MODULUS;
          amt = amount_in inp mod FIELD_MODULUS;
          expected_new_pool_b_buy_a = fadd pool_b amt;
          k_check_buy_a = fmul new_a expected_new_pool_b_buy_a;
          buy_a_k_match = fsub k_check_buy_a (k_old inp);
          buy_a_pool_match = fsub new_b expected_new_pool_b_buy_a
      in fadd (fmul buy_a_k_match buy_a_k_match) (fmul buy_a_pool_match buy_a_pool_match))"

definition buy_b_constraint :: "PositionUpdateInputs \<Rightarrow> nat" where
  \<comment> \<open>The residual of the path for buying B, with the roles of the pools exchanged.\<close>
  "buy_b_constraint inp =
     (let pool_a = pool_token_a inp mod FIELD_MODULUS;
          new_a = new_pool_token_a inp mod FIELD_MODULUS;
          new_b = new_pool_token_b inp mod FIELD_MODULUS;
          amt = amount_in inp mod FIELD_MODULUS;
          expected_new_pool_a_buy_b = fadd pool_a amt;
          k_check_buy_b = fmul expected_new_pool_a_buy_b new_b;
          buy_b_k_match = fsub k_check_buy_b (k_old inp);
          buy_b_pool_match = fsub new_a expected_new_pool_a_buy_b
      in fadd (fmul buy_b_k_match buy_b_k_match) (fmul buy_b_pool_match buy_b_pool_match))"

definition enforced_constraint :: "PositionUpdateInputs \<Rightarrow> nat" where
  \<comment> \<open>\<open>is_buy_a * buy_a_constraint + (1 - is_buy_a) * buy_b_constraint\<close>\<close>
  "enforced_constraint inp =
     (let buy = is_buy_a inp mod FIELD_MODULUS
      in fadd (fmul buy (buy_a_constraint inp)) (fmul (fsub 1 buy) (buy_b_constraint inp)))"

definition amount_out :: "PositionUpdateInputs \<Rightarrow> nat" where
  "amount_out inp =
     (let pool_a = pool_token_a inp mod FIELD_MODULUS;
          pool_b = pool_token_b inp mod FIELD_MODULUS;
          new_a = new_pool_token_a inp mod FIELD_MODULUS;
          new_b = new_pool_token_b inp mod FIELD_MODULUS;
          buy = is_buy_a inp mod FIELD_MODULUS;
          amount_out_buy_a = fsub pool_a new_a;
          amount_out_buy_b = fsub pool_b new_b
      in fadd (fmul buy amount_out_buy_a) (fmul (fsub 1 buy) amount_out_buy_b))"

definition PositionUpdateCircuit :: "PositionUpdateInputs \<Rightarrow> nat option" where
  \<comment> \<open>The output signal \<open>valid\<close> when every constraint of the circuit holds.\<close>
  "PositionUpdateCircuit inp =
     (if \<not> Num2Bits 64 (amount_in inp mod FIELD_MODULUS) then None
      else if \<not> Num2Bits 64 (pool_token_a inp mod FIELD_MODULUS) then None
      else if \<not> Num2Bits 64 (pool_token_b inp mod FIELD_MODULUS) then None
      else if \<not> Num2Bits 1 (is_buy_a inp mod FIELD_MODULUS) then None
      else if kCheck inp \<noteq> Some 1 then None
      else if enforced_constraint inp \<noteq> 0 then None
      else if GreaterEqThan 64 (amount_out inp) (min_amount_out inp mod FIELD_MODULUS) \<noteq> Some 1 then None
      else if IsZero (new_pool_token_a inp mod FIELD_MODULUS) \<noteq> 0 then None
      else if IsZero (new_pool_token_b inp mod FIELD_MODULUS) \<noteq> 0 then None
      else Some 1)"

definition buy_a_test_inputs :: PositionUpdateInputs where
  \<comment> \<open>The inputs of the test "should accept valid buy A transaction".\<close>
  "buy_a_test_inputs =
     \<lparr>in_market_id = 1,
      pool_token_a = 1000000000,
      pool_token_b = 1000000000,
      new_pool_token_a = 909090909,
      new_pool_token_b = 1100000000,
      amount_in = 100000000,
      is_buy_a = 1,
      min_amount_out = 80000000,
      user_secret = 0x1234567890abcdef1234567890abcdef1234567890abcdef1234567890abcdef,
      position_commitment = 0xabcdef1234567890abcdef1234567890abcdef1234567890abcdef1234567890\<rparr>"

definition new_pool_a_buy_a :: "nat \<Rightarrow> nat \<Rightarrow> nat \<Rightarrow> nat" where
  \<comment> \<open>The comment of the circuit for buying A, \<open>new_pool_a = k_old / new_pool_b\<close> with
      \<open>new_pool_b = pool_b + amount_in\<close>, in integers with the quotient truncated.\<close>
  "new_pool_a_buy_a pool_a pool_b amt = (pool_a * pool_b) div (pool_b + amt)"



section \<open>Specification functions for the tree\<close>

text \<open>
  The functions of this section are not in the source: the statements about \<open>getNode\<close>,
  \<open>getRoot\<close>, \<open>generatePath\<close> and \<open>verifyPath\<close> are made and proved with them.
\<close>

fun subtree :: "nat \<Rightarrow> nat \<Rightarrow> (nat \<times> nat) set" where
  \<comment> \<open>The keys of the node at a level and a position and of all nodes below it: the
      entries that \<open>getNode\<close> writes to the cache when none of them is cached.\<close>
  "subtree 0 i = {(0, i)}"
| "subtree (Suc l) i = insert (Suc l, i) (subtree l (i * 2) \<union> subtree l (i * 2 + 1))"

definition node_value :: "string \<Rightarrow> js_error + int" where
  \<comment> \<open>The integer that \<open>hashNodes\<close> hands to Poseidon for a node, or the exception of
      the conversion.\<close>
  "node_value s = toBigInt (Str (hex_prefixed s))"

fun read_back :: "Uint8Array \<Rightarrow> int" where
  \<comment> \<open>The integer that \<open>poseidonHash\<close> reads from a string that \<open>poseidonHash\<close> returned
      for these bytes: the decimal digits of the first byte, read as hexadecimal.\<close>
  "read_back [] = 0"
| "read_back (b # bs) = int (digits_value 16 (toStringRadix 10 (unat b)))"

definition zero_initialized :: "poseidon \<Rightarrow> MerkleTree \<Rightarrow> MerkleTree" where
  \<comment> \<open>The tree that \<open>initializeZeroValue\<close> leaves behind.\<close>
  "zero_initialized H T =
     T\<lparr>zeroValue := (if zeroValue T = ''0x0'' then hash_string (H [0, 0]) else zeroValue T)\<rparr>"


text \<open>
  The test "should handle consecutive insertions" (sdk/tests/edge-cases.test.ts): it
  inserts the commitments at the indices 0, 1, ..., reads the root, and for each index
  generates the path and verifies it against the root.
\<close>

fun insert_all :: "poseidon \<Rightarrow> nat \<Rightarrow> string list \<Rightarrow> MerkleTree \<Rightarrow> (js_error + unit) \<times> MerkleTree" where
  "insert_all H i [] T = (Inr (), T)"
| "insert_all H i (comm # rest) T =
     (case insert_tree H i comm T of
        (Inl e, T1) \<Rightarrow> (Inl e, T1)
      | (Inr _, T1) \<Rightarrow> insert_all H (Suc i) rest T1)"

fun verify_all :: "poseidon \<Rightarrow> string \<Rightarrow> nat \<Rightarrow> string list \<Rightarrow> MerkleTree \<Rightarrow> (js_error + bool list) \<times> MerkleTree" where
  "verify_all H root i [] T = (Inr [], T)"
| "verify_all H root i (comm # rest) T =
     (case generatePath H i T of
        (Inl e, T1) \<Rightarrow> (Inl e, T1)
      | (Inr path, T1) \<Rightarrow>
          (case verifyPath H comm (pathElements path) (pathIndices path) root T1 of
             (Inl e, T2) \<Rightarrow> (Inl e, T2)
           | (Inr isValid, T2) \<Rightarrow>
               (case verify_all H root (Suc i) rest T2 of
                  (Inl e, T3) \<Rightarrow> (Inl e, T3)
                | (Inr oks, T3) \<Rightarrow> (Inr (isValid # oks), T3))))"

definition consecutive_insertions :: "poseidon \<Rightarrow> nat \<Rightarrow> string list \<Rightarrow> js_error + bool list" where
  "consecutive_insertions H depth commitments =
     (case insert_all H 0 commitments (new_MerkleTree depth) of
        (Inl e, T1) \<Rightarrow> Inl e
      | (Inr _, T1) \<Rightarrow>
          (case getRoot H T1 of
             (Inl e, T2) \<Rightarrow> Inl e
           | (Inr root, T2) \<Rightarrow> fst (verify_all H root 0 commitments T2)))"



section \<open>Conversions: basic facts\<close>

lemma digit_val_digit_char: "d < 16 \<Longrightarrow> digit_val (digit_char d) = d"
proof -
  have "list_all (\<lambda>d. digit_val (digit_char d) = d) [0..<16]"
    by code_simp
  then show "d < 16 \<Longrightarrow> digit_val (digit_char d) = d"
    by (simp add: list_all_iff)
qed

lemma not_ws_digit: "digit_val c < 36 \<Longrightarrow> \<not> isWhiteSpace c"
  by (auto simp: digit_val_def isWhiteSpace_def Let_def split: if_splits)

lemma trim_id: "s \<noteq> [] \<Longrightarrow> \<not> isWhiteSpace (hd s) \<Longrightarrow> \<not> isWhiteSpace (last s) \<Longrightarrow> trim s = s"
proof -
  assume a: "s \<noteq> []" "\<not> isWhiteSpace (hd s)" "\<not> isWhiteSpace (last s)"
  have 1: "dropWhile isWhiteSpace s = s"
    using a by (cases s) auto
  have 2: "dropWhile isWhiteSpace (rev s) = rev s"
    using a by (cases "rev s") (auto simp: hd_rev)
  show ?thesis by (simp add: trim_def 1 2)
qed

lemma digits_value_append:
  "digits_value b (xs @ [c]) = digits_value b xs * b + digit_val c"
  by (simp add: digits_value_def)

lemma digits_value_zeros: "digits_value b (replicate k CHR ''0'' @ ds) = digits_value b ds"
proof -
  have "foldl (\<lambda>a c. a * b + digit_val c) 0 (replicate k CHR ''0'') = 0"
    by (induction k) (simp_all add: digit_val_def)
  then show ?thesis by (simp add: digits_value_def)
qed

lemma digit_val_zero: "digit_val CHR ''0'' = 0"
  by (simp add: digit_val_def)

lemma StringToBigInt_0x:
  assumes "ds \<noteq> []" "list_all (\<lambda>c. digit_val c < 16) ds"
  shows "StringToBigInt (CHR ''0'' # CHR ''x'' # ds) = Some (int (digits_value 16 ds))"
proof -
  have "digit_val (last ds) < 16"
    using assms by (simp add: list_all_iff)
  then have "\<not> isWhiteSpace (last (''0x'' @ ds))"
    using assms(1) by (simp add: not_ws_digit)
  moreover have "\<not> isWhiteSpace (hd (''0x'' @ ds))"
    by (simp add: isWhiteSpace_def)
  ultimately have "trim (''0x'' @ ds) = ''0x'' @ ds"
    by (intro trim_id) simp_all
  then show ?thesis
    using assms by (simp add: StringToBigInt_def parse_digits_def)
qed

lemma StringToBigInt_0x_append:
  "ds \<noteq> [] \<Longrightarrow> list_all (\<lambda>c. digit_val c < 16) ds
   \<Longrightarrow> StringToBigInt (''0x'' @ ds) = Some (int (digits_value 16 ds))"
  by (simp add: StringToBigInt_0x)

lemma hex_string_not_0x: "hex_string s \<Longrightarrow> \<not> startsWith s ''0x''"
proof
  assume h: "hex_string s" and st: "startsWith s ''0x''"
  from st obtain r where "s = ''0x'' @ r"
    by (metis append_take_drop_id startsWith_def)
  with h show False
    by (simp add: hex_string_def digit_val_def)
qed

lemma toBigInt_hex_string: "hex_string s \<Longrightarrow> toBigInt (Str s) = Inr (int (digits_value 16 s))"
  by (simp add: toBigInt_def hex_string_not_0x StringToBigInt_0x hex_string_def)

lemma toBigInt_Num: "toBigInt (Num (Integral i)) = Inr i"
  by (simp add: toBigInt_def NumberToBigInt_def)


section \<open>Creating a position in a created market\<close>

lemma toStringRadix_10_digits:
  "list_all (\<lambda>c. digit_val c < 10) (toStringRadix 10 n) \<and> toStringRadix 10 n \<noteq> []"
proof (induction "10::nat" n rule: toStringRadix.induct)
  case (1 n)
  show ?case
  proof (cases "n < 10")
    case True
    then show ?thesis
      by (subst (1 2) toStringRadix.simps) (simp add: digit_val_digit_char)
  next
    case False
    then show ?thesis
      using 1 by (subst (1 2) toStringRadix.simps) (simp add: digit_val_digit_char)
  qed
qed

lemma market_id_not_BigInt:
  "toBigInt (Str (''market_'' @ toStringRadix 10 now)) = Inl SyntaxError"
proof -
  let ?ds = "toStringRadix 10 now"
  let ?s = "''market_'' @ ?ds"
  have d: "?ds \<noteq> []" "digit_val (last ?ds) < 10"
    using toStringRadix_10_digits [of now] by (simp_all add: list_all_iff)
  then have lw: "\<not> isWhiteSpace (last ?ds)"
    by (intro not_ws_digit) simp
  have t1: "trim ?s = ?s"
    using d(1) lw by (intro trim_id) (simp_all add: isWhiteSpace_def)
  have t2: "trim (''0x'' @ ?s) = ''0x'' @ ?s"
    using d(1) lw by (intro trim_id) (simp_all add: isWhiteSpace_def)
  have 1: "StringToBigInt (''0x'' @ ?s) = None"
    unfolding StringToBigInt_def t2 by (simp add: parse_digits_def digit_val_def)
  have 2: "StringToBigInt ?s = None"
    unfolding StringToBigInt_def t1 by (simp add: parse_digits_def digit_val_def)
  have 3: "\<not> startsWith ?s ''0x''"
    by (simp add: startsWith_def)
  show ?thesis
    using 1 2 3 by (simp add: toBigInt_def)
qed

lemma bigIntInputs_third_throws:
  "toBigInt c = Inl e \<Longrightarrow> isl (bigIntInputs [a, b, c])"
  by (simp add: bigIntInputs_def split: sum.splits)

text \<open>
  Claim C10. For every market that \<open>createMarket\<close> returns, whose id is \<open>market_\<close>
  followed by the digits of \<open>Date.now()\<close>, \<open>createPosition\<close> with that id throws instead
  of returning a position: the id is neither a hexadecimal numeral after \<open>0x\<close> nor a
  decimal numeral, so both \<open>BigInt\<close> conversions of \<open>poseidonHash\<close> fail on it with a
  SyntaxError.
\<close>

theorem createPosition_throws:
  assumes "createMarket now options sdk = Inr m"
  shows "toBigInt (Str (market_id m)) = Inl SyntaxError
       \<and> isl (createPosition H secret now'
                 \<lparr>opt_marketId = market_id m, opt_outcome = outcome, opt_amount = amount\<rparr> sdk)"
proof -
  have init: "checkInit sdk = Inr ()" and m: "market_id m = ''market_'' @ toStringRadix 10 now"
    using assms by (auto simp: createMarket_def split: sum.splits)
  have 1: "toBigInt (Str (market_id m)) = Inl SyntaxError"
    unfolding m by (rule market_id_not_BigInt)
  have "isl (bigIntInputs [Num amount, Str secret, Str (market_id m)])"
    using 1 by (rule bigIntInputs_third_throws)
  then obtain e where "poseidonHash H [Num amount, Str secret, Str (market_id m)] = Inl e"
    by (cases "bigIntInputs [Num amount, Str secret, Str (market_id m)]")
       (simp_all add: poseidonHash_def)
  then show ?thesis
    using 1 init by (simp add: createPosition_def)
qed

theorem createPosition_throws_witness:
  "createMarket 1700000000000
     \<lparr>opt_question = ''Will it rain tomorrow?'', opt_outcomes = [''Yes'', ''No''],
      opt_resolutionDate = 1767139200000, opt_initialLiquidity = Integral 10000\<rparr>
     (initialize (new_ProofSightSDK ''devnet''))
   = Inr \<lparr>market_id = ''market_'' @ toStringRadix 10 1700000000000,
          question = ''Will it rain tomorrow?'', outcomes = [''Yes'', ''No''],
          currentOdds = [(''Yes'', Fractional), (''No'', Fractional)],
          totalLiquidity = Integral 10000, volume24h = Integral 0,
          resolutionDate = 1767139200000, status = ''active''\<rparr>
   \<and> toBigInt (Str (''market_'' @ toStringRadix 10 1700000000000)) = Inl SyntaxError
   \<and> isl (createPosition sample_poseidon
            ''00112233445566778899aabbccddeeff00112233445566778899aabbccddeeff'' 1700000000001
            \<lparr>opt_marketId = ''market_'' @ toStringRadix 10 1700000000000, opt_outcome = ''Yes'',
             opt_amount = Integral 500\<rparr>
            (initialize (new_ProofSightSDK ''devnet'')))"
proof -
  have h: "createMarket 1700000000000
     \<lparr>opt_question = ''Will it rain tomorrow?'', opt_outcomes = [''Yes'', ''No''],
      opt_resolutionDate = 1767139200000, opt_initialLiquidity = Integral 10000\<rparr>
     (initialize (new_ProofSightSDK ''devnet''))
   = Inr \<lparr>market_id = ''market_'' @ toStringRadix 10 1700000000000,
          question = ''Will it rain tomorrow?'', outcomes = [''Yes'', ''No''],
          currentOdds = [(''Yes'', Fractional), (''No'', Fractional)],
          totalLiquidity = Integral 10000, volume24h = Integral 0,
          resolutionDate = 1767139200000, status = ''active''\<rparr>"
    by (simp add: createMarket_def checkInit_def initialize_def new_ProofSightSDK_def)
  show ?thesis
    using h createPosition_throws [OF h, of sample_poseidon
        "''00112233445566778899aabbccddeeff00112233445566778899aabbccddeeff''" 1700000000001
        "''Yes''" "Integral 500"]
    by simp
qed


section \<open>Input tuples of the hash in its contexts\<close>

lemma map_throw_length: "map_throw f xs = Inr ys \<Longrightarrow> length ys = length xs"
  by (induction xs arbitrary: ys) (auto split: sum.splits)

text \<open>
  Nullifier derivation and Merkle node hashing feed the hash the same tuple: the
  nullifier of a secret and a commitment is the parent node of the two as children.
\<close>

lemma toBigInt_0x_hex_string:
  "hex_string s \<Longrightarrow> toBigInt (Str (''0x'' @ s)) = Inr (int (digits_value 16 s))"
  by (simp add: toBigInt_def startsWith_def StringToBigInt_0x hex_string_def)

lemma nullifier_is_node_hash:
  assumes "hex_string secret" "startsWith c ''0x''"
  shows "computeNullifier H secret c = hashNodes H secret c"
proof -
  have "hex_prefixed secret = ''0x'' @ secret"
    using hex_string_not_0x [OF assms(1)] by (simp add: hex_prefixed_def)
  moreover have "toBigInt (Str (''0x'' @ secret)) = toBigInt (Str secret)"
    using assms(1) by (simp add: toBigInt_hex_string toBigInt_0x_hex_string [simplified])
  ultimately show ?thesis
    using assms(2)
    by (simp add: computeNullifier_def hashNodes_def hex_prefixed_def poseidonHash_def
          bigIntInputs_def)
qed






section \<open>The pinned trade of the position update circuit\<close>

text \<open>
  Claim C1, as stated, fails: in the scenario of the test "should accept valid buy A
  transaction" the product of the new reserves is below the product of the old ones,
  and the circuit does not accept the state.
\<close>

theorem buy_a_test_rejected:
  "new_pool_token_a buy_a_test_inputs * new_pool_token_b buy_a_test_inputs
     < pool_token_a buy_a_test_inputs * pool_token_b buy_a_test_inputs
   \<and> PositionUpdateCircuit buy_a_test_inputs = None"
  by (simp add: buy_a_test_inputs_def PositionUpdateCircuit_def kCheck_def k_new_def k_old_def
        GreaterEqThan_def LessThan_def Num2Bits_def fadd_def fsub_def fmul_def FIELD_MODULUS_def)

text \<open>
  Claim C1, amended. In the pinned scenario the new reserve of B is the old one plus the
  amount paid in, 1,100,000,000, and the truncated quotient of the old product by it
  gives the new reserve of A, 909,090,909. For this state the new product is
  999,999,999,900,000,000, below the old product \<open>10^18\<close>: the comparison \<open>kCheck\<close> of
  the circuit outputs 0 and the circuit rejects the state.
\<close>

theorem buy_a_truncated_state:
  "new_pool_token_b buy_a_test_inputs = pool_token_b buy_a_test_inputs + amount_in buy_a_test_inputs
   \<and> new_pool_token_a buy_a_test_inputs
       = new_pool_a_buy_a (pool_token_a buy_a_test_inputs) (pool_token_b buy_a_test_inputs)
           (amount_in buy_a_test_inputs)
   \<and> k_new buy_a_test_inputs = 999999999900000000
   \<and> k_old buy_a_test_inputs = 1000000000000000000
   \<and> kCheck buy_a_test_inputs = Some 0
   \<and> PositionUpdateCircuit buy_a_test_inputs = None"
  by (simp add: buy_a_test_inputs_def PositionUpdateCircuit_def kCheck_def k_new_def k_old_def
        GreaterEqThan_def LessThan_def Num2Bits_def fadd_def fsub_def fmul_def FIELD_MODULUS_def
        new_pool_a_buy_a_def)


text \<open>
  The state with the new reserve of A rounded up, 909,090,910, passes the comparison
  \<open>kCheck\<close>, but the product with the new reserve of B is then not the old product, and
  the constraint of the exact path rejects it as well.
\<close>

lemma fadd_small: "a + b < FIELD_MODULUS \<Longrightarrow> fadd a b = a + b"
  by (simp add: fadd_def)

lemma fmul_small: "a * b < FIELD_MODULUS \<Longrightarrow> fmul a b = a * b"
  by (simp add: fmul_def)

lemma fsub_small: "b \<le> a \<Longrightarrow> a < FIELD_MODULUS \<Longrightarrow> fsub a b = a - b"
proof -
  assume ba: "b \<le> a" and a: "a < FIELD_MODULUS"
  then have "b mod FIELD_MODULUS = b" by simp
  then have "fsub a b = (a + (FIELD_MODULUS - b)) mod FIELD_MODULUS"
    by (simp add: fsub_def)
  also have "a + (FIELD_MODULUS - b) = (a - b) + FIELD_MODULUS"
    using ba a by simp
  also have "((a - b) + FIELD_MODULUS) mod FIELD_MODULUS = (a - b) mod FIELD_MODULUS"
    by simp
  also have "\<dots> = a - b"
    using a by simp
  finally show ?thesis .
qed

lemma fmul_zero_left: "fmul 0 x = 0"
  by (simp add: fmul_def)

lemma small_mod: "a < FIELD_MODULUS \<Longrightarrow> a mod FIELD_MODULUS = a"
  by simp

lemma buy_a_rounded_up_state:
  "kCheck (buy_a_test_inputs\<lparr>new_pool_token_a := 909090910\<rparr>) = Some 1
   \<and> buy_a_constraint (buy_a_test_inputs\<lparr>new_pool_token_a := 909090910\<rparr>) = 1000000000000000000
   \<and> enforced_constraint (buy_a_test_inputs\<lparr>new_pool_token_a := 909090910\<rparr>) = 1000000000000000000
   \<and> PositionUpdateCircuit (buy_a_test_inputs\<lparr>new_pool_token_a := 909090910\<rparr>) = None"
proof -
  let ?inp = "buy_a_test_inputs\<lparr>new_pool_token_a := 909090910\<rparr>"
  have p: "FIELD_MODULUS = 21888242871839275222246405745257275088548364400416034343698204186575808495617"
    by (simp add: FIELD_MODULUS_def)
  have k: "kCheck ?inp = Some 1"
    by (simp add: buy_a_test_inputs_def kCheck_def k_new_def k_old_def GreaterEqThan_def
          LessThan_def Num2Bits_def fadd_def fsub_def fmul_def FIELD_MODULUS_def)
  have a: "buy_a_constraint ?inp = 1000000000000000000"
    by (simp add: buy_a_test_inputs_def buy_a_constraint_def k_old_def small_mod fadd_small
          fmul_small fsub_small p)
  have buy: "is_buy_a buy_a_test_inputs mod FIELD_MODULUS = 1"
    by (simp add: buy_a_test_inputs_def small_mod p)
  have "fsub 1 1 = 0" "fmul 1 1000000000000000000 = 1000000000000000000"
       "fadd 1000000000000000000 0 = 1000000000000000000"
    by (simp_all add: fsub_small fmul_small fadd_small p)
  then have e: "enforced_constraint ?inp = 1000000000000000000"
    by (simp add: enforced_constraint_def buy a fmul_zero_left)
  have "PositionUpdateCircuit ?inp = None"
    by (simp add: PositionUpdateCircuit_def e k)
  then show ?thesis
    using k a e by simp
qed


section \<open>What generateProof hands to the prover\<close>

text \<open>
  Claim C2, as stated, fails: a witness with a negative amount and a secret that is no
  number is outside the proving field, and \<open>generateProof\<close> hands it to the prover and
  returns what the prover returns.
\<close>

theorem generateProof_dispatches_unchecked:
  "\<not> in_proving_field unchecked_witness
   \<and> generateProof sample_prover ''deposit.wasm'' ''deposit_0001.zkey'' unchecked_witness []
       = (Inr \<lparr>pr_proof = \<lparr>pi_a = [], pi_b = [], pi_c = []\<rparr>, pr_publicSignals = []\<rparr>,
          [(unchecked_witness, ''deposit.wasm'', ''deposit_0001.zkey'')])"
  by (simp add: in_proving_field_def unchecked_witness_def scalar_values_def StringToBigInt_def
        trim_def isWhiteSpace_def parse_digits_def digits_value_def digit_val_def
        generateProof_def sample_prover_def)

text \<open>
  Claim C2, amended. \<open>generateProof\<close> makes no check of its own: it calls the external
  prover once with the witness as it was given, returns the prover's proof with the
  public signals printed as strings, and rethrows a failure of the prover with the
  prefix \<open>Proof generation failed:\<close>.
\<close>

theorem generateProof_forwards:
  "snd (generateProof prover wasmPath zkeyPath inputs calls) = calls @ [(inputs, wasmPath, zkeyPath)]
   \<and> fst (generateProof prover wasmPath zkeyPath inputs calls)
       = (case prover inputs wasmPath zkeyPath of
            Inl error \<Rightarrow> Inl (Error (''Proof generation failed: '' @ error))
          | Inr r \<Rightarrow> Inr \<lparr>pr_proof = fp_proof r,
                          pr_publicSignals = map (toStringRadix 10) (fp_publicSignals r)\<rparr>)"
  by (simp add: generateProof_def split: sum.splits)


section \<open>What poseidonHash prints and what it reads back\<close>

text \<open>
  A string that \<open>poseidonHash\<close> returns is \<open>0x\<close>, zeros up to 64 characters, and the
  decimal bytes of the hash joined by commas. When such a string is an input of
  \<open>poseidonHash\<close>, \<open>BigInt\<close> rejects it for its commas (a hash of one byte apart) and the
  fallback \<open>parseInt(input, 16)\<close> reads the digits before the first comma: the integer
  that is hashed is the first byte, its decimal digits read as hexadecimal.
\<close>

lemma join_strings_Cons:
  "join_strings sep (s # ss) = s @ (if ss = [] then [] else sep @ join_strings sep ss)"
  by (cases ss) simp_all

lemma join_strings_last:
  "ss \<noteq> [] \<Longrightarrow> last ss \<noteq> []
   \<Longrightarrow> join_strings sep ss \<noteq> [] \<and> last (join_strings sep ss) = last (last ss)"
  by (induction sep ss rule: join_strings.induct) auto

lemma digits_value_Nil: "digits_value b [] = 0"
  by (simp add: digits_value_def)

lemma decimal_digits_as_hex_le:
  "digits_value 16 (toStringRadix 10 n) \<le> n * n"
proof (induction "10::nat" n rule: toStringRadix.induct)
  case (1 n)
  show ?case
  proof (cases "n < 10")
    case True
    then have "digits_value 16 (toStringRadix 10 n) = n"
      by (subst toStringRadix.simps) (simp add: digits_value_def digit_val_digit_char)
    then show ?thesis
      by (cases n) simp_all
  next
    case False
    define q where "q = n div 10"
    define r where "r = n mod 10"
    have n: "n = 10 * q + r" and r: "r < 10" and q: "1 \<le> q"
      using False by (simp_all add: q_def r_def)
    have ih: "digits_value 16 (toStringRadix 10 q) \<le> q * q"
      using 1 False by (simp add: q_def)
    have "digits_value 16 (toStringRadix 10 n) = digits_value 16 (toStringRadix 10 q) * 16 + r"
      using False r
      by (subst toStringRadix.simps)
         (simp add: digits_value_append digit_val_digit_char q_def r_def)
    also have "\<dots> \<le> q * q * 16 + r"
      using ih by simp
    also have "\<dots> \<le> q * q * 16 + q * q * 84"
    proof -
      have "q * 1 \<le> q * q" using q by (intro mult_le_mono2)
      then have "84 * (q * 1) \<le> 84 * (q * q)" by (rule mult_le_mono2)
      moreover have "r \<le> 84 * (q * 1)" using r q by simp
      ultimately have "r \<le> q * q * 84" by (metis order_trans mult.commute)
      then show ?thesis by simp
    qed
    also have "\<dots> = (10 * q) * (10 * q)"
      by simp
    also have "\<dots> \<le> n * n"
      by (intro mult_le_mono) (simp_all add: n)
    finally show ?thesis .
  qed
qed

lemma byte_digits:
  fixes b :: "8 word"
  shows "toStringRadix 10 (unat b) \<noteq> []"
    and "list_all (\<lambda>c. digit_val c < 16) (toStringRadix 10 (unat b))"
    and "digits_value 16 (toStringRadix 10 (unat b)) < 2 ^ 53"
proof -
  show "toStringRadix 10 (unat b) \<noteq> []"
    using toStringRadix_10_digits [of "unat b"] by simp
  have "list_all (\<lambda>c. digit_val c < 10) (toStringRadix 10 (unat b))"
    using toStringRadix_10_digits [of "unat b"] by simp
  then show "list_all (\<lambda>c. digit_val c < 16) (toStringRadix 10 (unat b))"
    by (auto simp: list_all_iff)
  have "unat b < 256"
    using unsigned_less [of b] by simp
  then have "unat b * unat b \<le> 255 * 255"
    by (intro mult_le_mono) simp_all
  then show "digits_value 16 (toStringRadix 10 (unat b)) < 2 ^ 53"
    using decimal_digits_as_hex_le [of "unat b"] by simp
qed

lemma toBigInt_comma:
  assumes z: "list_all (\<lambda>c. digit_val c < 16) z" "z \<noteq> []" "digits_value 16 z < 2 ^ 53"
      and rest: "rest \<noteq> []" "\<not> isWhiteSpace (last rest)"
  shows "toBigInt (Str (''0x'' @ z @ CHR '','' # rest)) = Inr (int (digits_value 16 z))"
proof -
  let ?s = "''0x'' @ z @ CHR '','' # rest"
  have "trim ?s = ?s"
    using rest by (intro trim_id) (simp_all add: isWhiteSpace_def)
  moreover have "parse_digits 16 (z @ CHR '','' # rest) = None"
    by (simp add: parse_digits_def digit_val_def)
  ultimately have 1: "StringToBigInt ?s = None"
    by (simp add: StringToBigInt_def)
  have "takeWhile (\<lambda>c. digit_val c < 16) (z @ CHR '','' # rest) = z"
    using z(1) by (simp add: list_all_iff takeWhile_append2 digit_val_def)
  then have 2: "parseInt16 ?s = Integral (int (digits_value 16 z))"
    using z(2,3)
    by (simp add: parseInt16_def trimStart_def isWhiteSpace_def startsWith_def to_double_def)
  show ?thesis
    using 1 2 by (simp add: toBigInt_def startsWith_def or_zero_def NumberToBigInt_def)
qed

lemma toBigInt_hash_string: "toBigInt (Str (hash_string h)) = Inr (read_back h)"
proof -
  define n where "n = 64 - length (Uint8Array_toString h)"
  let ?Z = "replicate n CHR ''0''"
  have hs: "hash_string h = ''0x'' @ ?Z @ Uint8Array_toString h"
    by (simp add: hash_string_def padStart_def n_def)
  have zeros: "list_all (\<lambda>c. digit_val c < 16) ?Z"
    by (simp add: list_all_iff digit_val_def)
  show ?thesis
  proof (cases h)
    case Nil
    have "hex_string (replicate 64 CHR ''0'')"
      by (simp add: hex_string_def digit_val_def list_all_iff)
    from toBigInt_0x_hex_string [OF this] show ?thesis
      using digits_value_zeros [of 16 64 "[]"]
      by (simp add: Nil hash_string_def Uint8Array_toString_def padStart_def digits_value_Nil)
  next
    case h: (Cons b bs)
    let ?d = "toStringRadix 10 (unat b)"
    have zd: "list_all (\<lambda>c. digit_val c < 16) (?Z @ ?d)" "?Z @ ?d \<noteq> []"
         "digits_value 16 (?Z @ ?d) = digits_value 16 ?d"
      using zeros byte_digits(1,2) [of b] by (simp_all add: digits_value_zeros)
    show ?thesis
    proof (cases bs)
      case Nil
      have J: "Uint8Array_toString h = ?d"
        by (simp add: h Nil Uint8Array_toString_def)
      have "hex_string (?Z @ ?d)"
        using zd by (simp add: hex_string_def)
      from toBigInt_0x_hex_string [OF this] show ?thesis
        unfolding hs J using zd(3) by (simp add: h)
    next
      case (Cons b2 bs2)
      let ?ss = "map (\<lambda>b. toStringRadix 10 (unat b)) bs"
      let ?rest = "join_strings '','' ?ss"
      have J: "Uint8Array_toString h = ?d @ CHR '','' # ?rest"
        unfolding h Uint8Array_toString_def by (simp add: Cons)
      have bs: "bs \<noteq> []"
        using Cons by simp
      have ss: "?ss \<noteq> []" "last ?ss \<noteq> []"
        using byte_digits(1) [of "last bs"] bs by (simp_all add: last_map)
      have "digit_val (last (last ?ss)) < 16"
        using byte_digits(1,2) [of "last bs"] bs by (simp add: last_map list_all_iff)
      then have rest: "?rest \<noteq> []" "\<not> isWhiteSpace (last ?rest)"
        using join_strings_last [OF ss, of "'',''"] by (simp_all add: not_ws_digit)
      have "toBigInt (Str (''0x'' @ (?Z @ ?d) @ CHR '','' # ?rest)) = Inr (int (digits_value 16 (?Z @ ?d)))"
        using zd byte_digits(3) [of b] rest by (intro toBigInt_comma) simp_all
      then show ?thesis
        unfolding hs J using zd(3) by (simp add: h)
    qed
  qed
qed

lemma startsWith_hash_string: "startsWith (hash_string h) ''0x''"
  by (simp add: startsWith_def hash_string_def)

lemma node_value_hash_string: "node_value (hash_string h) = Inr (read_back h)"
  by (simp add: node_value_def hex_prefixed_def startsWith_hash_string toBigInt_hash_string)

lemma hash_string_not_0x0: "hash_string h \<noteq> ''0x0''"
proof
  assume "hash_string h = ''0x0''"
  then have "length (hash_string h) = 3" by simp
  then show False by (simp add: hash_string_def padStart_def)
qed

lemma example_prints:
  "hash_string [6, 23, 52, 213, 9, 88, 120, 45, 67, 200, 13, 77, 150, 31, 242, 5, 96, 180, 64, 19,
                222, 101, 58, 7, 139, 84, 250, 33, 170, 2, 115, 49]
     = ''0x6,23,52,213,9,88,120,45,67,200,13,77,150,31,242,5,96,180,64,19,222,101,58,7,139,84,250,33,170,2,115,49''"
  "hash_string [6, 99, 1, 30, 77, 214, 8, 163, 52, 91, 240, 17, 128, 66, 205, 3, 147, 29, 88, 251,
                10, 174, 43, 120, 62, 199, 5, 136, 71, 222, 14, 90]
     = ''0x6,99,1,30,77,214,8,163,52,91,240,17,128,66,205,3,147,29,88,251,10,174,43,120,62,199,5,136,71,222,14,90''"
  "hash_string [130, 154, 1, 250] = ''0x'' @ replicate 51 CHR ''0'' @ ''130,154,1,250''"
  "read_back [130, 154, 1, 250] = 304"
  by code_simp+

lemma computeCommitment_eq:
  "computeCommitment H amount secret index =
     (case bigIntInputs [Num amount, Str secret, Num index] of
        Inl e \<Rightarrow> Inl e
      | Inr xs \<Rightarrow> Inr (hash_string (H xs)))"
proof (cases "bigIntInputs [Num amount, Str secret, Num index]")
  case (Inl e)
  then show ?thesis by (simp add: computeCommitment_def poseidonHash_def)
next
  case (Inr xs)
  then have "length xs = 3"
    using map_throw_length [of toBigInt "[Num amount, Str secret, Num index]" xs]
    by (simp add: bigIntInputs_def)
  then show ?thesis
    using Inr by (simp add: computeCommitment_def poseidonHash_def poseidonInstance_def)
qed

lemma computeNullifier_eq:
  "computeNullifier H secret (hash_string h) =
     (case toBigInt (Str secret) of
        Inl e \<Rightarrow> Inl e
      | Inr x \<Rightarrow> Inr (hash_string (H [x, read_back h])))"
  by (simp add: computeNullifier_def poseidonHash_def bigIntInputs_def poseidonInstance_def
        toBigInt_hash_string split: sum.splits)

text \<open>
  Claim C8. \<open>computeCommitment(amount, secret, index)\<close> is the string that \<open>poseidonHash\<close>
  prints for Poseidon on the tuple of amount, secret and index, a function of the tuple.
  \<open>computeNullifier(secret, commitment)\<close> on a commitment that \<open>poseidonHash\<close> printed
  does not hash the commitment: the second element of its tuple is what is read back from
  the string, the first byte. The two commitments of the statement differ in 31 of their
  32 bytes and have the same nullifier, the hash of the secret and 6. The string of a
  hash of two or more bytes has a comma: it is no hexadecimal numeral.
\<close>

theorem nullifier_reads_first_byte:
  "computeCommitment H amount secret index =
     (case bigIntInputs [Num amount, Str secret, Num index] of
        Inl e \<Rightarrow> Inl e
      | Inr xs \<Rightarrow> Inr (hash_string (H xs)))
   \<and> computeNullifier H secret (hash_string h) =
     (case toBigInt (Str secret) of
        Inl e \<Rightarrow> Inl e
      | Inr x \<Rightarrow> Inr (hash_string (H [x, read_back h])))
   \<and> hash_string [6, 23, 52, 213, 9, 88, 120, 45, 67, 200, 13, 77, 150, 31, 242, 5, 96, 180, 64,
                   19, 222, 101, 58, 7, 139, 84, 250, 33, 170, 2, 115, 49]
     = ''0x6,23,52,213,9,88,120,45,67,200,13,77,150,31,242,5,96,180,64,19,222,101,58,7,139,84,250,33,170,2,115,49''
   \<and> hash_string [6, 99, 1, 30, 77, 214, 8, 163, 52, 91, 240, 17, 128, 66, 205, 3, 147, 29, 88,
                   251, 10, 174, 43, 120, 62, 199, 5, 136, 71, 222, 14, 90]
     = ''0x6,99,1,30,77,214,8,163,52,91,240,17,128,66,205,3,147,29,88,251,10,174,43,120,62,199,5,136,71,222,14,90''
   \<and> computeNullifier H secret
       ''0x6,23,52,213,9,88,120,45,67,200,13,77,150,31,242,5,96,180,64,19,222,101,58,7,139,84,250,33,170,2,115,49''
     = computeNullifier H secret
       ''0x6,99,1,30,77,214,8,163,52,91,240,17,128,66,205,3,147,29,88,251,10,174,43,120,62,199,5,136,71,222,14,90''
   \<and> computeNullifier H ''ab''
       ''0x6,23,52,213,9,88,120,45,67,200,13,77,150,31,242,5,96,180,64,19,222,101,58,7,139,84,250,33,170,2,115,49''
     = Inr (hash_string (H [171, 6]))
   \<and> CHR '','' \<in> set (hash_string (b # b' # bytes))"
proof -
  have comma: "CHR '','' \<in> set (hash_string (b # b' # bytes))"
    by (simp add: hash_string_def padStart_def Uint8Array_toString_def)
  let ?b1 = "[6, 23, 52, 213, 9, 88, 120, 45, 67, 200, 13, 77, 150, 31, 242, 5, 96, 180, 64,
              19, 222, 101, 58, 7, 139, 84, 250, 33, 170, 2, 115, 49] :: Uint8Array"
  let ?b2 = "[6, 99, 1, 30, 77, 214, 8, 163, 52, 91, 240, 17, 128, 66, 205, 3, 147, 29, 88,
              251, 10, 174, 43, 120, 62, 199, 5, 136, 71, 222, 14, 90] :: Uint8Array"
  have p1: "hash_string ?b1
     = ''0x6,23,52,213,9,88,120,45,67,200,13,77,150,31,242,5,96,180,64,19,222,101,58,7,139,84,250,33,170,2,115,49''"
    by code_simp
  have p2: "hash_string ?b2
     = ''0x6,99,1,30,77,214,8,163,52,91,240,17,128,66,205,3,147,29,88,251,10,174,43,120,62,199,5,136,71,222,14,90''"
    by code_simp
  have r: "read_back ?b1 = 6" "read_back ?b2 = 6"
    by code_simp+
  have ab: "toBigInt (Str ''ab'') = Inr 171"
    by (simp add: toBigInt_def startsWith_def StringToBigInt_def trim_def isWhiteSpace_def
          parse_digits_def digits_value_def digit_val_def)
  have n1: "computeNullifier H s (hash_string ?b1) =
      (case toBigInt (Str s) of Inl e \<Rightarrow> Inl e | Inr x \<Rightarrow> Inr (hash_string (H [x, 6])))" for s
    unfolding computeNullifier_eq r ..
  have n2: "computeNullifier H s (hash_string ?b2) =
      (case toBigInt (Str s) of Inl e \<Rightarrow> Inl e | Inr x \<Rightarrow> Inr (hash_string (H [x, 6])))" for s
    unfolding computeNullifier_eq r ..
  have same: "computeNullifier H secret (hash_string ?b1) = computeNullifier H secret (hash_string ?b2)"
    unfolding n1 n2 ..
  have one: "computeNullifier H ''ab'' (hash_string ?b1) = Inr (hash_string (H [171, 6]))"
    unfolding n1 ab by simp
  show ?thesis
    using computeCommitment_eq [of H amount secret index] computeNullifier_eq [of H secret h]
      p1 p2 same [unfolded p1 p2] one [unfolded p1] comma
    by blast
qed


section \<open>Exceptions of the tree\<close>

lemma poseidonHash_2:
  "toBigInt a = Inr x \<Longrightarrow> toBigInt b = Inr y \<Longrightarrow> poseidonHash H [a, b] = Inr (hash_string (H [x, y]))"
  by (simp add: poseidonHash_def bigIntInputs_def poseidonInstance_def)

lemma poseidonHash_3:
  "toBigInt a = Inr x \<Longrightarrow> toBigInt b = Inr y \<Longrightarrow> toBigInt c = Inr z
   \<Longrightarrow> poseidonHash H [a, b, c] = Inr (hash_string (H [x, y, z]))"
  by (simp add: poseidonHash_def bigIntInputs_def poseidonInstance_def)

lemma initializeZeroValue_ok: "initializeZeroValue H T = (Inr (), zero_initialized H T)"
  by (simp add: initializeZeroValue_def zero_initialized_def poseidonHash_2 toBigInt_Num)

lemma zero_initialized_fields [simp]:
  "levels (zero_initialized H T) = levels T"
  "leaves (zero_initialized H T) = leaves T"
  "nodes (zero_initialized H T) = nodes T"
  by (simp_all add: zero_initialized_def)

lemma zero_initialized_idem [simp]:
  "zero_initialized H (zero_initialized H T) = zero_initialized H T"
  by (simp add: zero_initialized_def)

lemma startsWith_hex_prefixed: "startsWith (hex_prefixed s) ''0x''"
  by (simp add: hex_prefixed_def startsWith_def)

lemma node_value_error: "node_value s = Inl e \<Longrightarrow> e = RangeError"
  using startsWith_hex_prefixed [of s]
  by (auto simp: node_value_def toBigInt_def NumberToBigInt_def
           split: option.splits js_number.splits)

lemma hashNodes_node_value:
  "hashNodes H a b =
     (case node_value a of
        Inl e \<Rightarrow> Inl e
      | Inr x \<Rightarrow> (case node_value b of Inl e \<Rightarrow> Inl e | Inr y \<Rightarrow> Inr (hash_string (H [x, y]))))"
  by (simp add: hashNodes_def poseidonHash_def bigIntInputs_def poseidonInstance_def
        node_value_def split: sum.splits)

lemma hashNodes_error: "hashNodes H a b = Inl e \<Longrightarrow> e = RangeError"
  by (auto simp: hashNodes_node_value dest: node_value_error split: sum.splits)

lemma Map_set_error: "Map_set k v m = Inl e \<Longrightarrow> e = RangeError"
  by (simp add: Map_set_def split: if_splits)

lemma getNode_Suc_cases:
  assumes "getNode H (Suc l) i T = (r, T')" and "entries (nodes T) (Suc l, i) = None"
  obtains
    (left_throws) e where
      "getNode H l (i * 2) (zero_initialized H T) = (Inl e, T')" "r = Inl e"
  | (right_throws) left T2 e where
      "getNode H l (i * 2) (zero_initialized H T) = (Inr left, T2)"
      "getNode H l (i * 2 + 1) T2 = (Inl e, T')" "r = Inl e"
  | (hash_throws) left T2 right where
      "getNode H l (i * 2) (zero_initialized H T) = (Inr left, T2)"
      "getNode H l (i * 2 + 1) T2 = (Inr right, T')"
      "r = Inl RangeError"
  | (returns) left T2 right T3 hash cache where
      "getNode H l (i * 2) (zero_initialized H T) = (Inr left, T2)"
      "getNode H l (i * 2 + 1) T2 = (Inr right, T3)"
      "hashNodes H left right = Inr hash"
      "Map_set (Suc l, i) hash (nodes T3) = Inr cache"
      "r = Inr hash" "T' = T3\<lparr>nodes := cache\<rparr>"
proof -
  obtain r2 T2 where g2: "getNode H l (i * 2) (zero_initialized H T) = (r2, T2)"
    by (cases "getNode H l (i * 2) (zero_initialized H T)")
  obtain r3 T3 where g3: "getNode H l (i * 2 + 1) T2 = (r3, T3)"
    by (cases "getNode H l (i * 2 + 1) T2")
  show thesis
  proof (cases r2)
    case (Inl e)
    then have "r = Inl e \<and> T' = T2"
      using assms g2 by (auto simp: initializeZeroValue_ok Map_get_def)
    then show thesis
      using g2 Inl left_throws by blast
  next
    case left: (Inr left)
    show thesis
    proof (cases r3)
      case (Inl e)
      then have "r = Inl e \<and> T' = T3"
        using assms g2 g3 left by (auto simp: initializeZeroValue_ok Map_get_def)
      then show thesis
        using g2 g3 left Inl right_throws by blast
    next
      case right: (Inr right)
      show thesis
      proof (cases "hashNodes H left right")
        case (Inl e)
        then have "e = RangeError" by (rule hashNodes_error)
        then have "r = Inl RangeError \<and> T' = T3"
          using assms g2 g3 left right Inl by (auto simp: initializeZeroValue_ok Map_get_def)
        then show thesis
          using g2 g3 left right hash_throws by blast
      next
        case hash: (Inr hash)
        show thesis
        proof (cases "Map_set (Suc l, i) hash (nodes T3)")
          case (Inl e)
          then have "e = RangeError" by (rule Map_set_error)
          then have "r = Inl RangeError \<and> T' = T3"
            using assms g2 g3 left right hash Inl by (auto simp: initializeZeroValue_ok Map_get_def)
          then show thesis
            using g2 g3 left right hash_throws by blast
        next
          case (Inr cache)
          then have "r = Inr hash \<and> T' = T3\<lparr>nodes := cache\<rparr>"
            using assms g2 g3 left right hash by (auto simp: initializeZeroValue_ok Map_get_def)
          then show thesis
            using g2 g3 left right hash Inr returns by blast
        qed
      qed
    qed
  qed
qed


lemma getNode_cached:
  "entries (nodes T) (l, i) = Some v \<Longrightarrow> getNode H l i T = (Inr v, zero_initialized H T)"
  by (cases l) (simp_all add: initializeZeroValue_ok Map_get_def)

lemma getNode_0_cases:
  assumes "getNode H 0 i T = (r, T')" and "entries (nodes T) (0, i) = None"
  obtains
    (set_throws) "MAP_MAX_SIZE \<le> map_size (nodes T)" "r = Inl RangeError"
      "T' = zero_initialized H T"
  | (returns) leaf where "map_size (nodes T) < MAP_MAX_SIZE" "r = Inr leaf"
      "T' = (zero_initialized H T)
              \<lparr>nodes := \<lparr>entries = (entries (nodes T))((0, i) \<mapsto> leaf),
                         map_size = map_size (nodes T) + 1\<rparr>\<rparr>"
proof (cases "MAP_MAX_SIZE \<le> map_size (nodes T)")
  case True
  then have "r = Inl RangeError \<and> T' = zero_initialized H T"
    using assms by (auto simp: initializeZeroValue_ok Map_get_def Map_set_def Let_def)
  then show thesis using True set_throws by blast
next
  case False
  then obtain leaf where "r = Inr leaf \<and>
      T' = (zero_initialized H T)
              \<lparr>nodes := \<lparr>entries = (entries (nodes T))((0, i) \<mapsto> leaf),
                         map_size = map_size (nodes T) + 1\<rparr>\<rparr>"
    using assms by (auto simp: initializeZeroValue_ok Map_get_def Map_set_def Let_def)
  then show thesis using False returns by auto
qed

lemma getNode_error: "getNode H l i T = (Inl e, T') \<Longrightarrow> e = RangeError"
proof (induction l arbitrary: i T T')
  case 0
  show ?case
  proof (cases "entries (nodes T) (0, i)")
    case None
    from "0.prems" None show ?thesis by (cases rule: getNode_0_cases) simp_all
  next
    case (Some v)
    then show ?thesis using "0.prems" unfolding getNode_cached [OF Some] by simp
  qed
next
  case (Suc l)
  show ?case
  proof (cases "entries (nodes T) (Suc l, i)")
    case None
    from Suc.prems None show ?thesis
      by (cases rule: getNode_Suc_cases) (auto dest: Suc.IH)
  next
    case (Some v)
    then show ?thesis using Suc.prems unfolding getNode_cached [OF Some] by simp
  qed
qed

section \<open>The entries that getNode writes\<close>

lemma subtree_mem: "(l', j) \<in> subtree l i \<Longrightarrow> l' \<le> l \<and> j div 2 ^ (l - l') = i"
proof (induction l arbitrary: i)
  case 0
  then show ?case by simp
next
  case (Suc l)
  have half: "j div 2 ^ Suc n = j div 2 ^ n div 2" for n
    by (simp only: power_Suc2 div_mult2_eq)
  have step: "l' \<le> l \<and> j div 2 ^ (l - l') = x \<Longrightarrow> x div 2 = i
      \<Longrightarrow> l' \<le> Suc l \<and> j div 2 ^ (Suc l - l') = i" for x
    by (auto simp: Suc_diff_le half simp del: power_Suc)
  from Suc.prems consider "(l', j) = (Suc l, i)" | "(l', j) \<in> subtree l (i * 2)"
    | "(l', j) \<in> subtree l (i * 2 + 1)"
    by auto
  then show ?case
  proof cases
    case 1
    then show ?thesis by simp
  next
    case 2
    then show ?thesis using Suc.IH [of "i * 2"] step [of "i * 2"] by simp
  next
    case 3
    then show ?thesis using Suc.IH [of "i * 2 + 1"] step [of "i * 2 + 1"] by simp
  qed
qed

lemma subtree_children_disjoint: "k \<in> subtree l (i * 2) \<Longrightarrow> k \<notin> subtree l (i * 2 + 1)"
proof
  assume a: "k \<in> subtree l (i * 2)" and b: "k \<in> subtree l (i * 2 + 1)"
  obtain l' j where k: "k = (l', j)" by (cases k)
  from a b show False
    unfolding k using subtree_mem [of l' j l "i * 2"] subtree_mem [of l' j l "i * 2 + 1"]
    by simp
qed

lemma subtree_level: "(l', j) \<in> subtree l i \<Longrightarrow> l' \<le> l"
  using subtree_mem by blast

lemma getNode_frame:
  "getNode H l i T = (r, T')
   \<Longrightarrow> leaves T' = leaves T \<and> levels T' = levels T
       \<and> map_size (nodes T) \<le> map_size (nodes T')
       \<and> (\<forall>k. k \<notin> subtree l i \<longrightarrow> entries (nodes T') k = entries (nodes T) k)"
proof (induction l arbitrary: i T r T')
  case 0
  show ?case
  proof (cases "entries (nodes T) (0, i)")
    case None
    from "0.prems" None show ?thesis by (cases rule: getNode_0_cases) simp_all
  next
    case (Some v)
    then show ?thesis using "0.prems" unfolding getNode_cached [OF Some] by auto
  qed
next
  case (Suc l)
  show ?case
  proof (cases "entries (nodes T) (Suc l, i)")
    case (Some v)
    then show ?thesis using Suc.prems unfolding getNode_cached [OF Some] by auto
  next
    case None
    from Suc.prems None show ?thesis
    proof (cases rule: getNode_Suc_cases)
      case (left_throws e)
      then show ?thesis using Suc.IH [OF left_throws(1)] by simp
    next
      case (right_throws left T2 e)
      then show ?thesis
        using Suc.IH [OF right_throws(1)] Suc.IH [OF right_throws(2)] by simp
    next
      case (hash_throws left T2 right)
      then show ?thesis
        using Suc.IH [OF hash_throws(1)] Suc.IH [OF hash_throws(2)] by simp
    next
      case (returns left T2 right T3 hash cache)
      have "map_size (nodes T3) \<le> map_size cache
            \<and> (\<forall>k. k \<noteq> (Suc l, i) \<longrightarrow> entries cache k = entries (nodes T3) k)"
        using returns(4) by (auto simp: Map_set_def split: if_splits)
      then show ?thesis
        using returns(6) Suc.IH [OF returns(1)] Suc.IH [OF returns(2)] by simp
    qed
  qed
qed


lemma Map_set_new:
  "entries m k = None \<Longrightarrow> Map_set k v m = Inr m'
   \<Longrightarrow> map_size m < MAP_MAX_SIZE \<and> map_size m' = map_size m + 1"
  by (auto simp: Map_set_def split: if_splits)

lemma getNode_size:
  assumes "\<forall>k\<in>subtree l i. entries (nodes T) k = None"
      and "getNode H l i T = (Inr v, T')"
  shows "map_size (nodes T') + 1 = map_size (nodes T) + 2 ^ (l + 1)
       \<and> map_size (nodes T') \<le> MAP_MAX_SIZE"
  using assms
proof (induction l arbitrary: i T v T')
  case 0
  then have None: "entries (nodes T) (0, i) = None" by simp
  from "0.prems"(2) None show ?case by (cases rule: getNode_0_cases) simp_all
next
  case (Suc l)
  have None: "entries (nodes T) (Suc l, i) = None"
    using Suc.prems(1) by simp
  from Suc.prems(2) None show ?case
  proof (cases rule: getNode_Suc_cases)
    case (returns left T2 right T3 hash cache)
    have fresh_left: "\<forall>k\<in>subtree l (i * 2). entries (nodes (zero_initialized H T)) k = None"
      using Suc.prems(1) by simp
    have size2: "map_size (nodes T2) + 1 = map_size (nodes T) + 2 ^ (l + 1)"
      using Suc.IH [OF fresh_left returns(1)] by simp
    have frame2: "\<forall>k. k \<notin> subtree l (i * 2) \<longrightarrow> entries (nodes T2) k = entries (nodes T) k"
      using getNode_frame [OF returns(1)] by simp
    have fresh_right: "\<forall>k\<in>subtree l (i * 2 + 1). entries (nodes T2) k = None"
    proof
      fix k assume k: "k \<in> subtree l (i * 2 + 1)"
      then have "k \<notin> subtree l (i * 2)"
        using subtree_children_disjoint by blast
      then have "entries (nodes T2) k = entries (nodes T) k"
        using frame2 by blast
      then show "entries (nodes T2) k = None"
        using Suc.prems(1) k by simp
    qed
    have size3: "map_size (nodes T3) + 1 = map_size (nodes T2) + 2 ^ (l + 1)"
      using Suc.IH [OF fresh_right returns(2)] by simp
    have frame3: "\<forall>k. k \<notin> subtree l (i * 2 + 1) \<longrightarrow> entries (nodes T3) k = entries (nodes T2) k"
      using getNode_frame [OF returns(2)] by simp
    have top: "(Suc l, i) \<notin> subtree l (i * 2)" "(Suc l, i) \<notin> subtree l (i * 2 + 1)"
      using subtree_level [of "Suc l" i l] by auto
    have "entries (nodes T3) (Suc l, i) = None"
      using top frame2 frame3 None by simp
    then have "map_size (nodes T3) < MAP_MAX_SIZE \<and> map_size cache = map_size (nodes T3) + 1"
      using returns(4) by (rule Map_set_new)
    then show ?thesis
      using size2 size3 returns(6) by simp
  qed simp_all
qed

lemma getNode_too_deep:
  assumes "\<forall>k\<in>subtree l i. entries (nodes T) k = None"
      and "MAP_MAX_SIZE + 1 < map_size (nodes T) + 2 ^ (l + 1)"
  shows "fst (getNode H l i T) = Inl RangeError"
proof (cases "getNode H l i T")
  case (Pair r T')
  show ?thesis
  proof (cases r)
    case (Inl e)
    then show ?thesis using Pair getNode_error [of H l i T e T'] by simp
  next
    case (Inr v)
    then show ?thesis
      using getNode_size [OF assms(1), of H v T'] Pair assms(2) by simp
  qed
qed

lemma getRoot_eq: "getRoot H T = getNode H (levels T) 0 (zero_initialized H T)"
  by (simp add: getRoot_def initializeZeroValue_ok)

lemma getRoot_too_deep:
  assumes "nodes T = new_Map" and "levels T = 32"
  shows "fst (getRoot H T) = Inl RangeError"
  unfolding getRoot_eq assms(2)
  by (rule getNode_too_deep) (simp_all add: assms(1) new_Map_def MAP_MAX_SIZE_def)

lemma insert_tree_eq:
  "insert_tree H i c T =
     (case Map_set i c (leaves T) of
        Inl e \<Rightarrow> (Inl e, zero_initialized H T)
      | Inr lv \<Rightarrow> (Inr (), (zero_initialized H T)\<lparr>leaves := lv, nodes := new_Map\<rparr>))"
  by (simp add: insert_tree_def initializeZeroValue_ok Map_clear_def split: sum.splits)

lemma insert_all_result:
  "insert_all H i cs T = (r, T') \<Longrightarrow> nodes T = new_Map
   \<Longrightarrow> (r = Inl RangeError \<or> r = Inr ()) \<and> nodes T' = new_Map \<and> levels T' = levels T"
proof (induction cs arbitrary: i T)
  case Nil
  then show ?case by auto
next
  case (Cons c cs)
  show ?case
  proof (cases "Map_set i c (leaves T)")
    case (Inl e)
    then have "e = RangeError" by (rule Map_set_error)
    then show ?thesis
      using Cons.prems Inl by (auto simp: insert_tree_eq)
  next
    case (Inr lv)
    then have "insert_all H (Suc i) cs ((zero_initialized H T)\<lparr>leaves := lv, nodes := new_Map\<rparr>) = (r, T')"
      using Cons.prems by (simp add: insert_tree_eq)
    from Cons.IH [OF this] show ?thesis by simp
  qed
qed

lemma consecutive_insertions_too_deep: "consecutive_insertions H 32 cs = Inl RangeError"
proof -
  obtain r T1 where ins: "insert_all H 0 cs (new_MerkleTree 32) = (r, T1)"
    by (cases "insert_all H 0 cs (new_MerkleTree 32)")
  have res: "(r = Inl RangeError \<or> r = Inr ()) \<and> nodes T1 = new_Map \<and> levels T1 = 32"
    using insert_all_result [OF ins] by (simp add: new_MerkleTree_def)
  then have "fst (getRoot H T1) = Inl RangeError"
    by (intro getRoot_too_deep) simp_all
  then obtain T2 where "getRoot H T1 = (Inl RangeError, T2)"
    by (cases "getRoot H T1") simp
  then show ?thesis
    using ins res by (auto simp: consecutive_insertions_def)
qed

section \<open>Small trees\<close>

lemma getRoot_depth_1:
  "fst (getRoot H (new_MerkleTree 1))
     = Inr (hash_string (H [read_back (H [0, 0]), read_back (H [0, 0])]))"
  by (simp add: getRoot_eq new_MerkleTree_def initializeZeroValue_ok zero_initialized_def
        Map_get_def Map_set_def new_Map_def MAP_MAX_SIZE_def hashNodes_node_value
        node_value_hash_string hash_string_not_0x0 Let_def)

lemma getRoot_depth_2:
  "fst (getRoot H (new_MerkleTree 2))
     = Inr (hash_string (H [read_back (H [read_back (H [0, 0]), read_back (H [0, 0])]),
                            read_back (H [read_back (H [0, 0]), read_back (H [0, 0])])]))"
  by (simp add: getRoot_eq new_MerkleTree_def initializeZeroValue_ok zero_initialized_def
        Map_get_def Map_set_def new_Map_def MAP_MAX_SIZE_def hashNodes_node_value
        node_value_hash_string hash_string_not_0x0 Let_def numeral_2_eq_2)

text \<open>
  Claim C9. On a new tree of depth 32 \<open>getRoot\<close> does not return the zero sentinel of
  depth 32: it throws. \<open>getNode\<close> computes and caches every node below the root, and
  the cache is full after \<open>2^24\<close> of the \<open>2^33 - 1\<close> entries. At a depth at which \<open>getRoot\<close>
  returns, the root is the hash of what is read back from the strings of the children,
  their first bytes, not the hash of the children: at depth 1 it is the hash of twice
  what is read back from the hash of \<open>[0, 0]\<close>. A hash whose first byte is 130 is read
  back as 304.
\<close>

theorem empty_root_depth_32:
  "fst (getRoot H (new_MerkleTree 32)) = Inl RangeError
   \<and> fst (getRoot H (new_MerkleTree 1))
       = Inr (hash_string (H [read_back (H [0, 0]), read_back (H [0, 0])]))
   \<and> fst (getRoot H (new_MerkleTree 2))
       = Inr (hash_string (H [read_back (H [read_back (H [0, 0]), read_back (H [0, 0])]),
                              read_back (H [read_back (H [0, 0]), read_back (H [0, 0])])]))
   \<and> read_back (130 # bytes) = 304"
proof -
  have "fst (getRoot H (new_MerkleTree 32)) = Inl RangeError"
    by (rule getRoot_too_deep) (simp_all add: new_MerkleTree_def)
  moreover have "read_back [130] = 304"
    by code_simp
  then have "read_back (130 # bytes) = 304"
    by simp
  ultimately show ?thesis
    using getRoot_depth_1 [of H] getRoot_depth_2 [of H] by blast
qed


section \<open>Paths in a tree of depth 1\<close>

lemma verifyPath_eq:
  "verifyPath H leaf elems dirs root T =
     (case verifyPath_loop H elems dirs 0 leaf of
        Inl e \<Rightarrow> (Inl e, zero_initialized H T)
      | Inr h \<Rightarrow> (Inr (toLowerCase h = toLowerCase root), zero_initialized H T))"
  by (simp add: verifyPath_def initializeZeroValue_ok)

lemma node_value_examples:
  "node_value ''0x01'' = Inr 1" "node_value ''0x02'' = Inr 2" "node_value ''0x2'' = Inr 2"
  "node_value ''0x03'' = Inr 3"
  by (simp_all add: node_value_def hex_prefixed_def startsWith_def toBigInt_def StringToBigInt_def
        trim_def isWhiteSpace_def parse_digits_def digits_value_def digit_val_def)

lemma generatePath_eq:
  "generatePath H index T = generatePath_loop H (levels T) 0 index [] [] (zero_initialized H T)"
  by (simp add: generatePath_def initializeZeroValue_ok)

lemma zero_initialized_set:
  "zeroValue T \<noteq> ''0x0'' \<Longrightarrow> zero_initialized H T = T"
  by (simp add: zero_initialized_def)

lemma zero_initialized_zeroValue:
  "zeroValue (zero_initialized H T) \<noteq> ''0x0''"
  by (simp add: zero_initialized_def hash_string_not_0x0)

lemma ins2:
  "insert_all H 0 [''0x01'', ''0x02''] (new_MerkleTree 1)
   = (Inr (), \<lparr>levels = 1, leaves = \<lparr>entries = [0 \<mapsto> ''0x01'', 1 \<mapsto> ''0x02''], map_size = 2\<rparr>,
               nodes = new_Map, zeroValue = hash_string (H [0, 0])\<rparr>)"
  by (simp add: insert_tree_eq new_MerkleTree_def zero_initialized_def Map_set_def new_Map_def
        MAP_MAX_SIZE_def hash_string_not_0x0)


lemma root2:
  "getRoot H \<lparr>levels = 1, leaves = \<lparr>entries = [0 \<mapsto> ''0x01'', 1 \<mapsto> ''0x02''], map_size = 2\<rparr>,
               nodes = new_Map, zeroValue = hash_string (H [0, 0])\<rparr>
   = (Inr (hash_string (H [1, 2])),
      \<lparr>levels = 1, leaves = \<lparr>entries = [0 \<mapsto> ''0x01'', 1 \<mapsto> ''0x02''], map_size = 2\<rparr>,
       nodes = \<lparr>entries = [(0, 0) \<mapsto> ''0x01'', (0, 1) \<mapsto> ''0x02'',
                            (1, 0) \<mapsto> hash_string (H [1, 2])], map_size = 3\<rparr>,
       zeroValue = hash_string (H [0, 0])\<rparr>)"
  by (simp add: getRoot_eq initializeZeroValue_ok hash_string_not_0x0 zero_initialized_set
        Map_get_def Map_set_def new_Map_def MAP_MAX_SIZE_def hashNodes_node_value
        node_value_examples Let_def)


lemma verify2:
  "fst (verify_all H (hash_string (H [1, 2])) 0 [''0x01'', ''0x02'']
      \<lparr>levels = 1, leaves = \<lparr>entries = [0 \<mapsto> ''0x01'', 1 \<mapsto> ''0x02''], map_size = 2\<rparr>,
       nodes = \<lparr>entries = [(0, 0) \<mapsto> ''0x01'', (0, 1) \<mapsto> ''0x02'',
                            (1, 0) \<mapsto> hash_string (H [1, 2])], map_size = 3\<rparr>,
       zeroValue = hash_string (H [0, 0])\<rparr>)
   = Inr [True, True]"
  by (simp add: generatePath_eq verifyPath_eq initializeZeroValue_ok hash_string_not_0x0
        zero_initialized_set Map_get_def hashNodes_node_value node_value_examples Let_def)

lemma small_round_trip: "consecutive_insertions H 1 [''0x01'', ''0x02''] = Inr [True, True]"
  unfolding consecutive_insertions_def ins2 by (simp only: root2 verify2 prod.case sum.case)

text \<open>
  Claim C6. At depth 32 the run of the test "should handle consecutive insertions" ends
  in the RangeError of \<open>getRoot\<close>, for every list of commitments: no path is generated
  and none is verified. At depth 1 the same run returns true for both leaves.
\<close>

theorem consecutive_insertions_depth_32:
  "consecutive_insertions H 32 commitments = Inl RangeError
   \<and> consecutive_insertions H 1 [''0x01'', ''0x02''] = Inr [True, True]"
  using consecutive_insertions_too_deep [of H commitments] small_round_trip [of H] by blast


section \<open>Paths in a tree of depth 32\<close>

lemma generatePath_loop_frame:
  "generatePath_loop H n level cur elems dirs T = (r, T')
   \<Longrightarrow> leaves T' = leaves T \<and> levels T' = levels T"
proof (induction n arbitrary: level cur elems dirs T)
  case 0
  then show ?case by simp
next
  case (Suc n)
  let ?sib = "if cur mod 2 = 0 then cur + 1 else cur - 1"
  obtain r1 T1 where g: "getNode H level ?sib T = (r1, T1)"
    by (cases "getNode H level ?sib T")
  have f: "leaves T1 = leaves T \<and> levels T1 = levels T"
    using getNode_frame [OF g] by simp
  show ?case
  proof (cases r1)
    case (Inl e)
    then show ?thesis using Suc.prems g f by (auto simp: Let_def)
  next
    case (Inr sibling)
    then have "generatePath_loop H n (Suc level) (cur div 2) (elems @ [sibling])
                 (dirs @ [int (cur mod 2)]) T1 = (r, T')"
      using Suc.prems g by (simp add: Let_def)
    from Suc.IH [OF this] show ?thesis using f by simp
  qed
qed

lemma div_exp_add: "(j::nat) div 2 ^ (a + b) = j div 2 ^ a div 2 ^ b"
  by (simp add: power_add div_mult2_eq)

lemma subtree_siblings_disjoint:
  assumes "k \<in> subtree (level + Suc n) 1"
  shows "k \<notin> subtree level 1"
proof
  assume b: "k \<in> subtree level 1"
  obtain l' j where k: "k = (l', j)" by (cases k)
  have 1: "l' \<le> level" "j div 2 ^ (level - l') = 1"
    using subtree_mem [of l' j level 1] b k by simp_all
  have 2: "j div 2 ^ (level + Suc n - l') = 1"
    using subtree_mem [of l' j "level + Suc n" 1] assms k by simp
  have "level + Suc n - l' = (level - l') + Suc n"
    using 1(1) by simp
  then have "j div 2 ^ (level + Suc n - l') = 1 div 2 ^ Suc n"
    using 1(2) by (simp only: div_exp_add)
  moreover have "(1::nat) < 2 ^ Suc n"
    by (rule one_less_power) simp_all
  then have "(1::nat) div 2 ^ Suc n = 0"
    by (rule div_less)
  ultimately show False
    using 2 by (simp del: power_Suc)
qed

lemma generatePath_loop_too_deep:
  assumes "\<forall>k\<in>subtree (level + n) 1. entries (nodes T) k = None"
      and "MAP_MAX_SIZE + 1 < 2 ^ (level + n + 1)"
  shows "fst (generatePath_loop H (Suc n) level 0 elems dirs T) = Inl RangeError"
  using assms
proof (induction n arbitrary: level elems dirs T)
  case 0
  have "fst (getNode H level 1 T) = Inl RangeError"
    using "0.prems" by (intro getNode_too_deep) simp_all
  then obtain T1 where "getNode H level 1 T = (Inl RangeError, T1)"
    by (cases "getNode H level 1 T") simp
  then show ?case by simp
next
  case (Suc n)
  obtain r1 T1 where g: "getNode H level 1 T = (r1, T1)"
    by (cases "getNode H level 1 T")
  show ?case
  proof (cases r1)
    case (Inl e)
    then have "e = RangeError"
      using g getNode_error by blast
    then show ?thesis using g Inl by simp
  next
    case (Inr sibling)
    have fresh: "\<forall>k\<in>subtree (level + Suc n) 1. entries (nodes T1) k = None"
    proof
      fix k assume k: "k \<in> subtree (level + Suc n) 1"
      then have "k \<notin> subtree level 1"
        by (rule subtree_siblings_disjoint)
      then have "entries (nodes T1) k = entries (nodes T) k"
        using getNode_frame [OF g] by blast
      then show "entries (nodes T1) k = None"
        using Suc.prems(1) k by (simp del: subtree.simps)
    qed
    have "fst (generatePath_loop H (Suc n) (Suc level) 0 (elems @ [sibling]) (dirs @ [0]) T1)
            = Inl RangeError"
      using fresh Suc.prems(2) by (intro Suc.IH) (simp_all del: subtree.simps)
    then show ?thesis
      using g Inr by simp
  qed
qed

lemma generatePath_too_deep:
  assumes "nodes T = new_Map" and "levels T = 32"
  shows "fst (generatePath H 0 T) = Inl RangeError"
    and "leaves (snd (generatePath H 0 T)) = leaves T"
proof -
  have "fst (generatePath_loop H (Suc 31) 0 0 [] [] (zero_initialized H T)) = Inl RangeError"
    by (rule generatePath_loop_too_deep) (simp_all add: assms(1) new_Map_def MAP_MAX_SIZE_def)
  then show "fst (generatePath H 0 T) = Inl RangeError"
    by (simp add: generatePath_eq assms(2))
  show "leaves (snd (generatePath H 0 T)) = leaves T"
    using generatePath_loop_frame [of H "levels T" 0 0 "[]" "[]" "zero_initialized H T"
        "fst (generatePath H 0 T)" "snd (generatePath H 0 T)"]
    by (simp add: generatePath_eq)
qed

lemma deposit_too_deep:
  "isl (fst (deposit H secret now amount (initialize (new_ProofSightSDK net))))
   \<and> leaves (merkleTree (snd (deposit H secret now amount (initialize (new_ProofSightSDK net)))))
       = new_Map"
proof -
  let ?sdk = "initialize (new_ProofSightSDK net)"
  have sdk: "checkInit ?sdk = Inr ()" "merkleTree ?sdk = new_MerkleTree 32"
    by (simp_all add: checkInit_def initialize_def new_ProofSightSDK_def)
  have T: "nodes (new_MerkleTree 32) = new_Map" "levels (new_MerkleTree 32) = 32"
          "leaves (new_MerkleTree 32) = new_Map"
    by (simp_all add: new_MerkleTree_def)
  obtain r T1 where g: "generatePath H 0 (new_MerkleTree 32) = (r, T1)"
    by (cases "generatePath H 0 (new_MerkleTree 32)")
  have r: "r = Inl RangeError" "leaves T1 = new_Map"
    using generatePath_too_deep [OF T(1,2), of H] g T(3) by simp_all
  show ?thesis
    using sdk g r T(3) by (simp add: deposit_def Let_def split: sum.splits)
qed

section \<open>Deposits and withdrawals of the SDK\<close>

text \<open>
  Claim C5. \<open>MerkleTree.insert\<close> sets the leaf without a check, and \<open>deposit\<close> passes
  it the constant index 0: a second insert at index 0 replaces the commitment of the
  first. On the tree of the SDK, of depth 32, \<open>deposit\<close> does not get as far as the
  insert: \<open>generatePath(0)\<close> runs first and ends in the RangeError of the full cache,
  so a deposit whose commitment and nullifier are computed throws and sets no leaf.
\<close>

theorem deposit_index_not_fresh:
  "fst (insert_tree H 0 c2 (snd (insert_tree H 0 c1 (new_MerkleTree 32)))) = Inr ()
   \<and> leaves (snd (insert_tree H 0 c2 (snd (insert_tree H 0 c1 (new_MerkleTree 32)))))
       = \<lparr>entries = [0 \<mapsto> c2], map_size = 1\<rparr>
   \<and> fst (deposit H secret now amount (initialize (new_ProofSightSDK net))) =
       (case computeCommitment H amount secret (Integral 0) of
          Inl e \<Rightarrow> Inl e
        | Inr commitment \<Rightarrow>
            (case computeNullifier H secret commitment of
               Inl e \<Rightarrow> Inl e
             | Inr nullifier \<Rightarrow> Inl RangeError))
   \<and> leaves (merkleTree (snd (deposit H secret now amount (initialize (new_ProofSightSDK net)))))
       = new_Map
   \<and> fst (deposit H ''00112233445566778899aabbccddeeff00112233445566778899aabbccddeeff''
            1700000000000 (Integral 1000) (initialize (new_ProofSightSDK ''devnet'')))
       = Inl RangeError"
proof -
  let ?sdk = "initialize (new_ProofSightSDK net)"
  have ins: "fst (insert_tree H 0 c2 (snd (insert_tree H 0 c1 (new_MerkleTree 32)))) = Inr ()"
    "leaves (snd (insert_tree H 0 c2 (snd (insert_tree H 0 c1 (new_MerkleTree 32)))))
       = \<lparr>entries = [0 \<mapsto> c2], map_size = 1\<rparr>"
    by (simp_all add: insert_tree_eq new_MerkleTree_def Map_set_def new_Map_def MAP_MAX_SIZE_def)
  have sdk: "checkInit (initialize (new_ProofSightSDK n)) = Inr ()"
       "merkleTree (initialize (new_ProofSightSDK n)) = new_MerkleTree 32" for n
    by (simp_all add: checkInit_def initialize_def new_ProofSightSDK_def)
  have T: "nodes (new_MerkleTree 32) = new_Map" "levels (new_MerkleTree 32) = 32"
    by (simp_all add: new_MerkleTree_def)
  obtain r T1 where g: "generatePath H 0 (new_MerkleTree 32) = (r, T1)"
    by (cases "generatePath H 0 (new_MerkleTree 32)")
  have r: "r = Inl RangeError"
    using generatePath_too_deep(1) [OF T, of H] g by simp
  have dep: "fst (deposit H s t a (initialize (new_ProofSightSDK n))) =
       (case computeCommitment H a s (Integral 0) of
          Inl e \<Rightarrow> Inl e
        | Inr commitment \<Rightarrow>
            (case computeNullifier H s commitment of
               Inl e \<Rightarrow> Inl e
             | Inr nullifier \<Rightarrow> Inl RangeError))" for s t a n
    using sdk [of n] g r by (simp add: deposit_def Let_def split: sum.splits)
  have sec: "toBigInt (Str ''00112233445566778899aabbccddeeff00112233445566778899aabbccddeeff'')
      = Inr (int (digits_value 16 ''00112233445566778899aabbccddeeff00112233445566778899aabbccddeeff''))"
    by (rule toBigInt_hex_string) (simp add: hex_string_def digit_val_def)
  have "computeCommitment H (Integral 1000)
          ''00112233445566778899aabbccddeeff00112233445566778899aabbccddeeff'' (Integral 0)
        = Inr (hash_string (H [1000,
            int (digits_value 16 ''00112233445566778899aabbccddeeff00112233445566778899aabbccddeeff''), 0]))"
    by (simp only: computeCommitment_def poseidonHash_3 [OF toBigInt_Num sec toBigInt_Num])
  then have one: "fst (deposit H ''00112233445566778899aabbccddeeff00112233445566778899aabbccddeeff''
            1700000000000 (Integral 1000) (initialize (new_ProofSightSDK ''devnet'')))
       = Inl RangeError"
    unfolding dep by (simp only: computeNullifier_eq sec sum.case)
  show ?thesis
    using ins dep [of secret now amount net] deposit_too_deep [of H secret now amount net] one
    by blast
qed



section \<open>Tampering with a path\<close>
















end
